theory Spec2Isabelle
  imports Complex_Main "HOL-Library.Sublist" "HOL-Library.AList"
begin

section \<open>Python values used by main.py\<close>

text \<open>
  Location codes are Python strings (\<open>str(s)\<close> is \<open>s\<close>); a route is the tuple
  \<open>(s, c)\<close>.  Numbers read from the JSON file and numbers returned by the solver are
  finite floats, taken here as reals (arithmetic on them is exact); the only non-finite
  floats of the program are the bounds \<open>-inf\<close> and \<open>inf\<close> of a constraint or variable,
  which \<open>bound\<close> adds.  The exceptions that can be raised are \<open>KeyError\<close> (indexing
  a dict, or a data frame by a column it does not have), \<open>ValueError\<close> (\<open>int\<close> of a
  string) and \<open>TypeError\<close> (a multi-index made of no tuple).
\<close>

type_synonym loc = string
type_synonym route = "loc \<times> loc"

datatype py_error = KeyError | ValueError | TypeError

datatype bound = NegInf | Fin real | PosInf

text \<open>Float subtraction \<open>b - x\<close> of a finite \<open>x\<close> from a possibly infinite \<open>b\<close>.\<close>

fun bound_minus :: "bound \<Rightarrow> real \<Rightarrow> bound" where
  "bound_minus NegInf x = NegInf"
| "bound_minus (Fin b) x = Fin (b - x)"
| "bound_minus PosInf x = PosInf"

fun bound_le :: "bound \<Rightarrow> bound \<Rightarrow> bool" where
  "bound_le NegInf b = True"
| "bound_le (Fin a) NegInf = False"
| "bound_le (Fin a) (Fin b) = (a \<le> b)"
| "bound_le (Fin a) PosInf = True"
| "bound_le PosInf PosInf = True"
| "bound_le PosInf b = False"

subsection \<open>Slices\<close>

text \<open>
  \<open>xs[lo:hi]\<close> with step 1: a negative index counts from the end, and every index is
  clamped into \<open>0..len(xs)\<close>; an omitted index is \<open>None\<close>.
\<close>

definition norm_index :: "nat \<Rightarrow> int \<Rightarrow> nat" where
  "norm_index n i = (if i < 0 then nat (max 0 (int n + i)) else min n (nat i))"

definition py_slice :: "int option \<Rightarrow> int option \<Rightarrow> 'a list \<Rightarrow> 'a list" where
  "py_slice lo hi xs =
     (let n = length xs;
          a = (case lo of None \<Rightarrow> 0 | Some i \<Rightarrow> norm_index n i);
          b = (case hi of None \<Rightarrow> n | Some j \<Rightarrow> norm_index n j)
      in take (b - a) (drop a xs))"

subsection \<open>\<open>int\<close> of a one-character slice\<close>

definition digit_value :: "char \<Rightarrow> int option" where
  "digit_value ch =
     (let n = (of_char ch :: nat) in if 48 \<le> n \<and> n \<le> 57 then Some (int n - 48) else None)"

text \<open>
  \<open>int(t)\<close> is only ever applied to the slice \<open>[2:3]\<close>, which has at most one
  character: a decimal digit gives its value, anything else (also the empty string)
  raises \<open>ValueError\<close>.
\<close>

definition py_int :: "string \<Rightarrow> py_error + int" where
  "py_int t =
     (case t of
        [ch] \<Rightarrow> (case digit_value ch of None \<Rightarrow> Inl ValueError | Some d \<Rightarrow> Inr d)
      | _ \<Rightarrow> Inl ValueError)"

subsection \<open>\<open>round(x, 2)\<close>\<close>

text \<open>Python rounds to the nearest multiple of 0.01 and a tie to the even one.\<close>

definition round_half_even :: "real \<Rightarrow> int" where
  "round_half_even x =
     (let f = \<lfloor>x\<rfloor>; d = x - of_int f
      in if d < 1 / 2 then f else if 1 / 2 < d then f + 1 else if even f then f else f + 1)"

definition py_round2 :: "real \<Rightarrow> real" where
  "py_round2 x = of_int (round_half_even (x * 100)) / 100"

section \<open>Identifiers\<close>

text \<open>The names given to variables and constraints (lines 45, 60, 70 and 79).\<close>

definition quantity_name :: "loc \<Rightarrow> loc \<Rightarrow> string" where
  "quantity_name s c = ''quantity_in_tons_'' @ s @ ''_'' @ c"

definition production_name :: "loc \<Rightarrow> string" where
  "production_name s = ''c01_production_'' @ s"

definition demand_name :: "loc \<Rightarrow> string" where
  "demand_name c = ''c02_demand_'' @ c"

definition fixed_name :: "loc \<Rightarrow> loc \<Rightarrow> string" where
  "fixed_name s c = ''c03_fixed_'' @ s @ ''_'' @ c"

text \<open>The decoders of the two narration functions (lines 172, 173, 203 and 204).\<close>

definition constraint_number :: "string \<Rightarrow> py_error + int" where
  "constraint_number constraint_name = py_int (py_slice (Some 2) (Some 3) constraint_name)"

definition constraint_location :: "string \<Rightarrow> loc" where
  "constraint_location constraint_name = py_slice (Some (- 3)) None constraint_name"

definition variable_source :: "string \<Rightarrow> loc" where
  "variable_source variable_name = py_slice (Some (- 7)) (Some (- 4)) variable_name"

definition variable_customer :: "string \<Rightarrow> loc" where
  "variable_customer variable_name = py_slice (Some (- 3)) None variable_name"

section \<open>Printed output\<close>

text \<open>
  A call of \<open>print\<close> is recorded with its arguments, and the printing of a data frame
  with the rows of the frame.  The result of a function that prints is the list of what
  it has printed when it returns, or the exception that escapes.
\<close>

datatype parg = Str string | Num real

datatype out =
    Print "parg list"
  | PrintFlows "(route \<times> real) list"
  | PrintConstraints "(string \<times> bound \<times> real) list"
  | PrintVariables "(string \<times> real \<times> real) list"

section \<open>Narration of the sensitivity analysis\<close>

definition print_conclusions_constraints_sensibility_analysis ::
    "string \<Rightarrow> real \<Rightarrow> loc list \<Rightarrow> py_error + out list" where
  "print_conclusions_constraints_sensibility_analysis constraint_name shadow_price0 sources =
     (case constraint_number constraint_name of
        Inl e \<Rightarrow> Inl e
      | Inr number \<Rightarrow>
          (let location = constraint_location constraint_name;
               shadow_price = py_round2 shadow_price0
           in Inr
             (if number \<le> 2 \<and> location \<in> set sources then
                (if shadow_price < 0 then
                   [Print [Str ''The total transportation cost would be reduced by'',
                           Num \<bar>shadow_price\<bar>,
                           Str ''euros for each additional ton available in'', Str location]]
                 else if 0 < shadow_price then
                   [Print [Str ''The total transportation cost would be increased in'',
                           Num shadow_price,
                           Str ''euros for each additional ton available in'', Str location]]
                 else
                   [Print [Str ''The total transportation cost would remain equal for each additional ton available in'',
                           Str location]])
              else if number \<le> 2 then
                (if shadow_price < 0 then
                   [Print [Str ''The total transportation cost would be reduced by'',
                           Num \<bar>shadow_price\<bar>,
                           Str ''euros for each additional ton supply at'', Str location]]
                 else if 0 < shadow_price then
                   [Print [Str ''The total transportation cost would be increased in'',
                           Num shadow_price,
                           Str ''euros for each additional ton supply at'', Str location]]
                 else
                   [Print [Str ''The total transportation cost would remain equal for each additional ton supply at'',
                           Str location]])
              else [])))"

definition print_conclusions_variables_sensibility_analysis ::
    "string \<Rightarrow> real \<Rightarrow> out list" where
  "print_conclusions_variables_sensibility_analysis variable_name reduced_cost0 =
     (let source = variable_source variable_name;
          customer = variable_customer variable_name;
          reduced_cost = py_round2 reduced_cost0
      in if reduced_cost < 0 then
           [Print [Str ''The total transportation cost would be reduced by'',
                   Num \<bar>reduced_cost\<bar>,
                   Str ''euros for each ton supply from'', Str source, Str ''to'', Str customer]]
         else if 0 < reduced_cost then
           [Print [Str ''The total cost would be increased in'',
                   Num reduced_cost,
                   Str ''euros for each ton supply from'', Str source, Str ''to'', Str customer]]
         else
           [Print [Str ''The total transportation cost would remain equal for each ton supply from'',
                   Str source, Str ''to'', Str customer]])"

section \<open>The linear solver as the program uses it\<close>

text \<open>
  The solver object holds the variables and the constraints in the order of their
  creation, and the objective.  A variable is referred to by its position in that list.
  The left-hand side of a constraint is the list of the variables summed, one entry for
  each summand.
\<close>

record variable =
  v_name :: string
  v_lb :: bound
  v_ub :: bound

record constraint =
  c_name :: string
  c_lb :: bound
  c_ub :: bound
  c_terms :: "nat list"

record solver =
  variables :: "variable list"
  constraints :: "constraint list"
  objective :: "(real \<times> nat) list"

definition CreateSolver :: solver where
  "CreateSolver = \<lparr>variables = [], constraints = [], objective = []\<rparr>"

definition NumVar :: "bound \<Rightarrow> bound \<Rightarrow> string \<Rightarrow> solver \<Rightarrow> nat \<times> solver" where
  "NumVar lb ub name sv =
     (length (variables sv),
      sv\<lparr>variables := variables sv @ [\<lparr>v_name = name, v_lb = lb, v_ub = ub\<rparr>]\<rparr>)"

text \<open>
  What \<open>solver.Add\<close> receives.  Python's \<open>sum\<close> of no summand is the integer 0, so
  that the comparison with the bound is a plain \<open>bool\<close>; otherwise the comparison of a
  linear expression with a number is a linear constraint with the bounds it states.
\<close>

datatype py_constraint = PyBool bool | LinearConstraint "nat list" bound bound

definition sum_le :: "nat list \<Rightarrow> real \<Rightarrow> py_constraint" where
  "sum_le vs b = (if vs = [] then PyBool (0 \<le> b) else LinearConstraint vs NegInf (Fin b))"

definition sum_ge :: "nat list \<Rightarrow> real \<Rightarrow> py_constraint" where
  "sum_ge vs b = (if vs = [] then PyBool (b \<le> 0) else LinearConstraint vs (Fin b) PosInf)"

definition var_eq :: "nat \<Rightarrow> real \<Rightarrow> py_constraint" where
  "var_eq v q = LinearConstraint [v] (Fin q) (Fin q)"

definition RowConstraint :: "bound \<Rightarrow> bound \<Rightarrow> string \<Rightarrow> nat list \<Rightarrow> solver \<Rightarrow> solver" where
  "RowConstraint lb ub name vs sv =
     sv\<lparr>constraints := constraints sv @ [\<lparr>c_name = name, c_lb = lb, c_ub = ub, c_terms = vs\<rparr>]\<rparr>"

text \<open>
  \<open>solver.Add\<close>: a \<open>bool\<close> becomes a constraint with no variable, \<open>0 \<le> 0 \<le> 0\<close> for
  \<open>True\<close> and \<open>1 \<le> 0 \<le> 1\<close> for \<open>False\<close>.
\<close>

definition Add :: "py_constraint \<Rightarrow> string \<Rightarrow> solver \<Rightarrow> solver" where
  "Add con name sv =
     (case con of
        PyBool b \<Rightarrow> (if b then RowConstraint (Fin 0) (Fin 0) name [] sv
                     else RowConstraint (Fin 1) (Fin 1) name [] sv)
      | LinearConstraint vs lb ub \<Rightarrow> RowConstraint lb ub name vs sv)"

definition Minimize :: "(real \<times> nat) list \<Rightarrow> solver \<Rightarrow> solver" where
  "Minimize ts sv = sv\<lparr>objective := ts\<rparr>"

text \<open>An assignment of values to the variables satisfies a constraint.\<close>

definition lhs_value :: "(nat \<Rightarrow> real) \<Rightarrow> constraint \<Rightarrow> real" where
  "lhs_value x k = sum_list (map x (c_terms k))"

definition satisfies :: "(nat \<Rightarrow> real) \<Rightarrow> constraint \<Rightarrow> bool" where
  "satisfies x k =
     (bound_le (c_lb k) (Fin (lhs_value x k)) \<and> bound_le (Fin (lhs_value x k)) (c_ub k))"

section \<open>The data and the model builder\<close>

text \<open>
  The content of the JSON file, under the keys the program reads.  The two parameters
  indexed by a route are lists of items \<open>(index, value)\<close>.
\<close>

record data =
  sSources :: "loc list"
  sCustomers :: "loc list"
  pSourceProduction :: "loc \<rightharpoonup> real"
  pCustomerDemand :: "loc \<rightharpoonup> real"
  pTransportationCosts :: "(route \<times> real) list"
  pFixedTransportation :: "(route \<times> real) list"

text \<open>A dict comprehension over items: a later item replaces an earlier one.\<close>

definition dict_of :: "('k \<times> 'v) list \<Rightarrow> 'k \<rightharpoonup> 'v" where
  "dict_of items = fold (\<lambda>(k, v) m. m(k \<mapsto> v)) items Map.empty"

definition sSources_Customers :: "data \<Rightarrow> route list" where
  "sSources_Customers d = map fst (pTransportationCosts d)"

text \<open>
  The pairs visited by
  \<open>for s in sSources for c in sCustomers if (s, c) in sSources_Customers\<close>, in order.
\<close>

definition route_pairs :: "data \<Rightarrow> route list" where
  "route_pairs d =
     [(s, c). s \<leftarrow> sSources d, c \<leftarrow> sCustomers d, (s, c) \<in> set (sSources_Customers d)]"

text \<open>Lines 44 to 47: one call of \<open>NumVar\<close> for each pair visited.\<close>

fun create_variables ::
    "route list \<Rightarrow> solver \<times> (route \<rightharpoonup> nat) \<Rightarrow> solver \<times> (route \<rightharpoonup> nat)" where
  "create_variables [] st = st"
| "create_variables ((s, c) # ks) (sv, vq) =
     (case NumVar (Fin 0) PosInf (quantity_name s c) sv of
        (v, sv') \<Rightarrow> create_variables ks (sv', vq((s, c) \<mapsto> v)))"

text \<open>The generator \<open>vQuantityExchanged[s, c] for ...\<close>: each lookup may raise.\<close>

fun lookup_all :: "(route \<rightharpoonup> nat) \<Rightarrow> route list \<Rightarrow> py_error + nat list" where
  "lookup_all vq [] = Inr []"
| "lookup_all vq (k # ks) =
     (case vq k of
        None \<Rightarrow> Inl KeyError
      | Some v \<Rightarrow> (case lookup_all vq ks of Inl e \<Rightarrow> Inl e | Inr vs \<Rightarrow> Inr (v # vs)))"

text \<open>Lines 54 to 61.\<close>

fun add_production ::
    "data \<Rightarrow> (route \<rightharpoonup> nat) \<Rightarrow> loc list \<Rightarrow> solver \<Rightarrow> py_error + solver" where
  "add_production d vq [] sv = Inr sv"
| "add_production d vq (s # ss) sv =
     (case lookup_all vq [(s, c). c \<leftarrow> sCustomers d, (s, c) \<in> set (sSources_Customers d)] of
        Inl e \<Rightarrow> Inl e
      | Inr vs \<Rightarrow>
          (case pSourceProduction d s of
             None \<Rightarrow> Inl KeyError
           | Some b \<Rightarrow> add_production d vq ss (Add (sum_le vs b) (production_name s) sv)))"

text \<open>Lines 64 to 71.\<close>

fun add_demand ::
    "data \<Rightarrow> (route \<rightharpoonup> nat) \<Rightarrow> loc list \<Rightarrow> solver \<Rightarrow> py_error + solver" where
  "add_demand d vq [] sv = Inr sv"
| "add_demand d vq (c # cs) sv =
     (case lookup_all vq [(s, c). s \<leftarrow> sSources d, (s, c) \<in> set (sSources_Customers d)] of
        Inl e \<Rightarrow> Inl e
      | Inr vs \<Rightarrow>
          (case pCustomerDemand d c of
             None \<Rightarrow> Inl KeyError
           | Some b \<Rightarrow> add_demand d vq cs (Add (sum_ge vs b) (demand_name c) sv)))"

text \<open>
  Lines 74 to 80.  The lookup \<open>pFixedTransportation[s, c]\<close> is only made for a pair of
  \<open>sSources_Customers\<close> (\<open>and\<close> does not evaluate its right operand otherwise), and it
  raises when the pair is not a key; a number is truthy when it is not zero.
\<close>

fun add_fixed_customers ::
    "data \<Rightarrow> (route \<rightharpoonup> nat) \<Rightarrow> loc \<Rightarrow> loc list \<Rightarrow> solver \<Rightarrow> py_error + solver" where
  "add_fixed_customers d vq s [] sv = Inr sv"
| "add_fixed_customers d vq s (c # cs) sv =
     (if (s, c) \<in> set (sSources_Customers d) then
        (case dict_of (pFixedTransportation d) (s, c) of
           None \<Rightarrow> Inl KeyError
         | Some q \<Rightarrow>
             (if q \<noteq> 0 then
                (case vq (s, c) of
                   None \<Rightarrow> Inl KeyError
                 | Some v \<Rightarrow> add_fixed_customers d vq s cs (Add (var_eq v q) (fixed_name s c) sv))
              else add_fixed_customers d vq s cs sv))
      else add_fixed_customers d vq s cs sv)"

fun add_fixed ::
    "data \<Rightarrow> (route \<rightharpoonup> nat) \<Rightarrow> loc list \<Rightarrow> solver \<Rightarrow> py_error + solver" where
  "add_fixed d vq [] sv = Inr sv"
| "add_fixed d vq (s # ss) sv =
     (case add_fixed_customers d vq s (sCustomers d) sv of
        Inl e \<Rightarrow> Inl e
      | Inr sv' \<Rightarrow> add_fixed d vq ss sv')"

text \<open>Lines 85 to 90: the summands \<open>pTransportationCosts[s, c] * vQuantityExchanged[s, c]\<close>.\<close>

fun objective_terms ::
    "(route \<rightharpoonup> real) \<Rightarrow> (route \<rightharpoonup> nat) \<Rightarrow> route list \<Rightarrow> py_error + (real \<times> nat) list" where
  "objective_terms pc vq [] = Inr []"
| "objective_terms pc vq (k # ks) =
     (case pc k of
        None \<Rightarrow> Inl KeyError
      | Some p \<Rightarrow>
          (case vq k of
             None \<Rightarrow> Inl KeyError
           | Some v \<Rightarrow>
               (case objective_terms pc vq ks of
                  Inl e \<Rightarrow> Inl e
                | Inr ts \<Rightarrow> Inr ((p, v) # ts))))"

record model =
  m_solver :: solver
  vQuantityExchanged :: "route \<rightharpoonup> nat"

text \<open>Lines 41 to 47: the solver with its variables, and the dict of the variables.\<close>

definition model_variables :: "data \<Rightarrow> solver \<times> (route \<rightharpoonup> nat)" where
  "model_variables d = create_variables (route_pairs d) (CreateSolver, Map.empty)"

text \<open>Lines 41 to 90: the model handed to \<open>solver.Solve()\<close>, or the exception raised.\<close>

definition build_model :: "data \<Rightarrow> py_error + model" where
  "build_model d =
     (case model_variables d of
        (sv0, vq) \<Rightarrow>
          (case add_production d vq (sSources d) sv0 of
             Inl e \<Rightarrow> Inl e
           | Inr sv1 \<Rightarrow>
               (case add_demand d vq (sCustomers d) sv1 of
                  Inl e \<Rightarrow> Inl e
                | Inr sv2 \<Rightarrow>
                    (case add_fixed d vq (sSources d) sv2 of
                       Inl e \<Rightarrow> Inl e
                     | Inr sv3 \<Rightarrow>
                         (case objective_terms (dict_of (pTransportationCosts d)) vq (route_pairs d) of
                            Inl e \<Rightarrow> Inl e
                          | Inr ts \<Rightarrow>
                              Inr \<lparr>m_solver = Minimize ts sv3, vQuantityExchanged = vq\<rparr>)))))"

section \<open>The solve engine and the interpretation of its result\<close>

text \<open>
  \<open>solver.Solve()\<close> is outside the program: its result is a parameter.  It gives the
  status and, by position, the value and reduced cost of each variable and the activity
  and dual value of each constraint.
\<close>

datatype status = OPTIMAL | FEASIBLE | INFEASIBLE | UNBOUNDED | ABNORMAL | MODEL_INVALID | NOT_SOLVED

record solution =
  status_code :: status
  objective_value :: real
  solution_value :: "nat \<Rightarrow> real"
  reduced_cost :: "nat \<Rightarrow> real"
  activities :: "nat \<Rightarrow> real"
  dual_value :: "nat \<Rightarrow> real"

text \<open>Lines 113 to 117: the dict of the positive quantities, keys in insertion order.\<close>

fun dict_quantity_sources_customers ::
    "(route \<rightharpoonup> nat) \<Rightarrow> solution \<Rightarrow> route list \<Rightarrow> (route \<times> real) list
       \<Rightarrow> py_error + (route \<times> real) list" where
  "dict_quantity_sources_customers vq sol [] acc = Inr acc"
| "dict_quantity_sources_customers vq sol (k # ks) acc =
     (case vq k of
        None \<Rightarrow> Inl KeyError
      | Some v \<Rightarrow>
          (if 0 < solution_value sol v
           then dict_quantity_sources_customers vq sol ks (AList.update k (solution_value sol v) acc)
           else dict_quantity_sources_customers vq sol ks acc))"

text \<open>Line 131: the slack of constraint \<open>i\<close>.\<close>

definition slack :: "constraint \<Rightarrow> real \<Rightarrow> bound" where
  "slack c a = (if bound_minus (c_ub c) a \<noteq> PosInf then bound_minus (c_ub c) a else Fin 0)"

text \<open>Lines 128 to 135: one row (name, slack, shadow price) for each constraint.\<close>

definition list_sensibility_analysis_constraints ::
    "solver \<Rightarrow> solution \<Rightarrow> (string \<times> bound \<times> real) list" where
  "list_sensibility_analysis_constraints sv sol =
     map (\<lambda>(i, c). (c_name c, slack c (activities sol i), dual_value sol i))
       (enumerate 0 (constraints sv))"

text \<open>Lines 141 to 145: the rows with \<open>Slack == 0\<close>, each handed to the narration.\<close>

definition binding_rows :: "(string \<times> bound \<times> real) list \<Rightarrow> (string \<times> bound \<times> real) list" where
  "binding_rows rows = filter (\<lambda>(name, sl, sp). sl = Fin 0) rows"

fun conclusions_constraints ::
    "(string \<times> bound \<times> real) list \<Rightarrow> loc list \<Rightarrow> py_error + out list" where
  "conclusions_constraints [] sources = Inr []"
| "conclusions_constraints ((name, sl, sp) # rows) sources =
     (case print_conclusions_constraints_sensibility_analysis name sp sources of
        Inl e \<Rightarrow> Inl e
      | Inr o1 \<Rightarrow>
          (case conclusions_constraints rows sources of
             Inl e \<Rightarrow> Inl e
           | Inr o2 \<Rightarrow> Inr (o1 @ o2)))"

text \<open>Lines 149 to 155 and 161 to 165, for the variables.\<close>

definition list_sensibility_analysis_variables ::
    "solver \<Rightarrow> solution \<Rightarrow> (string \<times> real \<times> real) list" where
  "list_sensibility_analysis_variables sv sol =
     map (\<lambda>(i, v). (v_name v, solution_value sol i, reduced_cost sol i))
       (enumerate 0 (variables sv))"

definition conclusions_variables :: "(string \<times> real \<times> real) list \<Rightarrow> out list" where
  "conclusions_variables rows =
     concat (map (\<lambda>(name, val, rc). print_conclusions_variables_sensibility_analysis name rc)
       (filter (\<lambda>(name, val, rc). val = 0) rows))"

text \<open>
  Lines 100 to 166: what is printed for a status \<open>OPTIMAL\<close> or \<open>FEASIBLE\<close>.  Three
  steps of the pandas library can raise.  \<open>pd.MultiIndex.from_tuples\<close> (line 119) raises
  \<open>TypeError\<close> when the dict of the positive quantities has no key.  A data frame made
  of an empty list of rows has no column, so that selecting \<open>['Slack']\<close> (line 142) or
  \<open>['Value']\<close> (line 162) raises \<open>KeyError\<close> when there is no constraint or no
  variable.  \<open>apply\<close> calls the narration on each selected row, and prints nothing
  when no row is selected.  An exception ends the run: the result is then the exception,
  without the lines printed before it.
\<close>

definition print_results :: "data \<Rightarrow> model \<Rightarrow> solution \<Rightarrow> py_error + out list" where
  "print_results d m sol =
     (let status_text = (if status_code sol = OPTIMAL then ''Optimal'' else ''Feasible, but not optimal'')
      in case dict_quantity_sources_customers (vQuantityExchanged m) sol (route_pairs d) [] of
           Inl e \<Rightarrow> Inl e
         | Inr flows \<Rightarrow>
             (if flows = [] then Inl TypeError
              else
                (let rows = list_sensibility_analysis_constraints (m_solver m) sol
                 in if rows = [] then Inl KeyError
                    else
                      (case conclusions_constraints (binding_rows rows) (sSources d) of
                         Inl e \<Rightarrow> Inl e
                       | Inr cc \<Rightarrow>
                           (let vrows = list_sensibility_analysis_variables (m_solver m) sol
                            in if vrows = [] then Inl KeyError
                               else Inr
                                 ([Print [Str [CHR 0x0A]],
                                   Print [Str ''Solver status: '', Str status_text, Str [CHR 0x0A]],
                                   Print [Str ''Total transportation cost: '',
                                          Num (objective_value sol), Str [CHR 0x0A]],
                                   Print [Str ''Quantity exchanged between sources and customers:''],
                                   PrintFlows flows,
                                   Print [Str [CHR 0x0A]],
                                   Print [Str ''Sensibility analysis - constraints:''],
                                   PrintConstraints rows,
                                   Print [Str [CHR 0x0A]]]
                                  @ cc
                                  @ [Print [Str [CHR 0x0A]],
                                     Print [Str ''Sensibility analysis - variables:''],
                                     PrintVariables vrows,
                                     Print [Str [CHR 0x0A]]]
                                  @ conclusions_variables vrows
                                  @ [Print [Str [CHR 0x0A]]]))))))"

text \<open>
  The whole function, from the loaded data on: the output printed, or the exception that
  escapes.  \<open>Solve\<close> is the solve engine.
\<close>

definition solve_problem_using_ortools_linear_solver ::
    "(solver \<Rightarrow> solution) \<Rightarrow> data \<Rightarrow> py_error + out list" where
  "solve_problem_using_ortools_linear_solver Solve d =
     (case build_model d of
        Inl e \<Rightarrow> Inl e
      | Inr m \<Rightarrow>
          (let sol = Solve (m_solver m)
           in if status_code sol \<noteq> FEASIBLE \<and> status_code sol \<noteq> OPTIMAL
              then Inr [Print [Str ''The solver could not solve the problem.'']]
              else print_results d m sol))"

section \<open>Sample data\<close>

text \<open>
  Two sources and three customers with the codes of the scenarios named at the end of
  main.py, and one ton fixed from Arn to Ams.  The data files are not among the sources:
  the numbers are chosen here.
\<close>

definition sample_costs :: "(route \<times> real) list" where
  "sample_costs =
     [((''Arn'', ''Ams''), 5 / 2), ((''Arn'', ''Ber''), 27 / 10),
      ((''Gou'', ''Ams''), 2), ((''Gou'', ''Lon''), 5 / 2)]"

definition sample_data :: data where
  "sample_data =
     \<lparr>sSources = [''Arn'', ''Gou''],
      sCustomers = [''Ams'', ''Ber'', ''Lon''],
      pSourceProduction = [''Arn'' \<mapsto> 550, ''Gou'' \<mapsto> 650],
      pCustomerDemand = [''Ams'' \<mapsto> 300, ''Ber'' \<mapsto> 200, ''Lon'' \<mapsto> 300],
      pTransportationCosts = sample_costs,
      pFixedTransportation =
        [((''Arn'', ''Ams''), 1), ((''Arn'', ''Ber''), 0),
         ((''Gou'', ''Ams''), 0), ((''Gou'', ''Lon''), 0)]\<rparr>"

text \<open>The solver that the builder makes of the sample data.\<close>

definition sample_solver :: solver where
  "sample_solver =
     \<lparr>variables =
        [\<lparr>v_name = ''quantity_in_tons_Arn_Ams'', v_lb = Fin 0, v_ub = PosInf\<rparr>,
         \<lparr>v_name = ''quantity_in_tons_Arn_Ber'', v_lb = Fin 0, v_ub = PosInf\<rparr>,
         \<lparr>v_name = ''quantity_in_tons_Gou_Ams'', v_lb = Fin 0, v_ub = PosInf\<rparr>,
         \<lparr>v_name = ''quantity_in_tons_Gou_Lon'', v_lb = Fin 0, v_ub = PosInf\<rparr>],
      constraints =
        [\<lparr>c_name = ''c01_production_Arn'', c_lb = NegInf, c_ub = Fin 550, c_terms = [0, 1]\<rparr>,
         \<lparr>c_name = ''c01_production_Gou'', c_lb = NegInf, c_ub = Fin 650, c_terms = [2, 3]\<rparr>,
         \<lparr>c_name = ''c02_demand_Ams'', c_lb = Fin 300, c_ub = PosInf, c_terms = [0, 2]\<rparr>,
         \<lparr>c_name = ''c02_demand_Ber'', c_lb = Fin 200, c_ub = PosInf, c_terms = [1]\<rparr>,
         \<lparr>c_name = ''c02_demand_Lon'', c_lb = Fin 300, c_ub = PosInf, c_terms = [3]\<rparr>,
         \<lparr>c_name = ''c03_fixed_Arn_Ams'', c_lb = Fin 1, c_ub = Fin 1, c_terms = [0]\<rparr>],
      objective = [(5 / 2, 0), (27 / 10, 1), (2, 2), (5 / 2, 3)]\<rparr>"

text \<open>The model of the sample data: this solver, and the dict of the variables.\<close>

definition sample_model :: model where
  "sample_model =
     \<lparr>m_solver = sample_solver,
      vQuantityExchanged =
        [(''Arn'', ''Ams'') \<mapsto> 0, (''Arn'', ''Ber'') \<mapsto> 1,
         (''Gou'', ''Ams'') \<mapsto> 2, (''Gou'', ''Lon'') \<mapsto> 3]\<rparr>"

text \<open>Quantities, by position of the variable, that satisfy the sample's constraints.\<close>

definition sample_flow :: "nat \<Rightarrow> real" where
  "sample_flow i = [1, 200, 299, 300] ! i"


text \<open>
  The sample with no quantity fixed, and the result of the solve engine for it: nothing
  goes from Arn to Ams, at a reduced cost of 0.5.
\<close>

definition unfixed_data :: data where
  "unfixed_data = sample_data\<lparr>pFixedTransportation :=
     [((''Arn'', ''Ams''), 0), ((''Arn'', ''Ber''), 0),
      ((''Gou'', ''Ams''), 0), ((''Gou'', ''Lon''), 0)]\<rparr>"

definition unfixed_solution :: solution where
  "unfixed_solution =
     \<lparr>status_code = OPTIMAL, objective_value = 1890,
      solution_value = (\<lambda>i. [0, 200, 300, 300] ! i),
      reduced_cost = (\<lambda>i. [1 / 2, 0, 0, 0] ! i),
      activities = (\<lambda>i. [200, 600, 300, 200, 300] ! i),
      dual_value = (\<lambda>i. [0, 0, 2, 27 / 10, 5 / 2] ! i)\<rparr>"

text \<open>The model of it: the sample's without the row of the fixed quantity.\<close>

definition unfixed_model :: model where
  "unfixed_model =
     \<lparr>m_solver =
        \<lparr>variables =
           [\<lparr>v_name = ''quantity_in_tons_Arn_Ams'', v_lb = Fin 0, v_ub = PosInf\<rparr>,
            \<lparr>v_name = ''quantity_in_tons_Arn_Ber'', v_lb = Fin 0, v_ub = PosInf\<rparr>,
            \<lparr>v_name = ''quantity_in_tons_Gou_Ams'', v_lb = Fin 0, v_ub = PosInf\<rparr>,
            \<lparr>v_name = ''quantity_in_tons_Gou_Lon'', v_lb = Fin 0, v_ub = PosInf\<rparr>],
         constraints =
           [\<lparr>c_name = ''c01_production_Arn'', c_lb = NegInf, c_ub = Fin 550, c_terms = [0, 1]\<rparr>,
            \<lparr>c_name = ''c01_production_Gou'', c_lb = NegInf, c_ub = Fin 650, c_terms = [2, 3]\<rparr>,
            \<lparr>c_name = ''c02_demand_Ams'', c_lb = Fin 300, c_ub = PosInf, c_terms = [0, 2]\<rparr>,
            \<lparr>c_name = ''c02_demand_Ber'', c_lb = Fin 200, c_ub = PosInf, c_terms = [1]\<rparr>,
            \<lparr>c_name = ''c02_demand_Lon'', c_lb = Fin 300, c_ub = PosInf, c_terms = [3]\<rparr>],
         objective = [(5 / 2, 0), (27 / 10, 1), (2, 2), (5 / 2, 3)]\<rparr>,
      vQuantityExchanged =
        [(''Arn'', ''Ams'') \<mapsto> 0, (''Arn'', ''Ber'') \<mapsto> 1,
         (''Gou'', ''Ams'') \<mapsto> 2, (''Gou'', ''Lon'') \<mapsto> 3]\<rparr>"

text \<open>One route and a customer that demands nothing: the best is to move nothing.\<close>

definition zero_demand_data :: data where
  "zero_demand_data =
     \<lparr>sSources = [''Arn''],
      sCustomers = [''Ams''],
      pSourceProduction = [''Arn'' \<mapsto> 550],
      pCustomerDemand = [''Ams'' \<mapsto> 0],
      pTransportationCosts = [((''Arn'', ''Ams''), 5 / 2)],
      pFixedTransportation = [((''Arn'', ''Ams''), 0)]\<rparr>"

text \<open>The model of it: one variable, the row of the source and the row of the customer.\<close>

definition zero_demand_model :: model where
  "zero_demand_model =
     \<lparr>m_solver =
        \<lparr>variables = [\<lparr>v_name = ''quantity_in_tons_Arn_Ams'', v_lb = Fin 0, v_ub = PosInf\<rparr>],
         constraints =
           [\<lparr>c_name = ''c01_production_Arn'', c_lb = NegInf, c_ub = Fin 550, c_terms = [0]\<rparr>,
            \<lparr>c_name = ''c02_demand_Ams'', c_lb = Fin 0, c_ub = PosInf, c_terms = [0]\<rparr>],
         objective = [(5 / 2, 0)]\<rparr>,
      vQuantityExchanged = [(''Arn'', ''Ams'') \<mapsto> 0]\<rparr>"

text \<open>The same data with no entry at all for the fixed quantities.\<close>

definition no_fixed_data :: data where
  "no_fixed_data = sample_data\<lparr>pFixedTransportation := []\<rparr>"

text \<open>A cost for a route whose source is not in the list of sources.\<close>

definition unlisted_source_data :: data where
  "unlisted_source_data =
     \<lparr>sSources = [''Arn''],
      sCustomers = [''Ams''],
      pSourceProduction = [''Arn'' \<mapsto> 550],
      pCustomerDemand = [''Ams'' \<mapsto> 500],
      pTransportationCosts = [((''Arn'', ''Ams''), 5 / 2), ((''Gou'', ''Ams''), 2)],
      pFixedTransportation = [((''Arn'', ''Ams''), 0), ((''Gou'', ''Ams''), 0)]\<rparr>"

text \<open>
  A source with no route (Rot, production 100) and a customer with no route (Par, demand
  50), beside the sample's.
\<close>

definition idle_source_data :: data where
  "idle_source_data = sample_data\<lparr>sSources := [''Arn'', ''Gou'', ''Rot''],
     sCustomers := [''Ams'', ''Ber'', ''Lon'', ''Par''],
     pSourceProduction := [''Arn'' \<mapsto> 550, ''Gou'' \<mapsto> 650, ''Rot'' \<mapsto> 100],
     pCustomerDemand := [''Ams'' \<mapsto> 300, ''Ber'' \<mapsto> 200, ''Lon'' \<mapsto> 300, ''Par'' \<mapsto> 50]\<rparr>"

text \<open>A result of the solve engine with every number zero.\<close>

definition zero_solution :: "status \<Rightarrow> solution" where
  "zero_solution st =
     \<lparr>status_code = st, objective_value = 0, solution_value = (\<lambda>i. 0),
      reduced_cost = (\<lambda>i. 0), activities = (\<lambda>i. 0), dual_value = (\<lambda>i. 0)\<rparr>"

section \<open>Closed forms of what the builder emits\<close>

text \<open>
  The row that \<open>Add\<close> appends, and the rows of the three loops; they are used to state
  what the loops have done.  They read a dict with \<open>the\<close>, and are only used where the
  builder has found the key.
\<close>

definition append_rows :: "constraint list \<Rightarrow> solver \<Rightarrow> solver" where
  "append_rows rs sv = sv\<lparr>constraints := constraints sv @ rs\<rparr>"

definition row_of :: "py_constraint \<Rightarrow> string \<Rightarrow> constraint" where
  "row_of con name =
     (case con of
        PyBool b \<Rightarrow> \<lparr>c_name = name, c_lb = Fin (if b then 0 else 1), c_ub = Fin (if b then 0 else 1), c_terms = []\<rparr>
      | LinearConstraint vs lb ub \<Rightarrow> \<lparr>c_name = name, c_lb = lb, c_ub = ub, c_terms = vs\<rparr>)"

definition source_routes :: "data \<Rightarrow> loc \<Rightarrow> route list" where
  "source_routes d s = [(s, c). c \<leftarrow> sCustomers d, (s, c) \<in> set (sSources_Customers d)]"

definition customer_routes :: "data \<Rightarrow> loc \<Rightarrow> route list" where
  "customer_routes d c = [(s, c). s \<leftarrow> sSources d, (s, c) \<in> set (sSources_Customers d)]"

definition production_row :: "data \<Rightarrow> (route \<rightharpoonup> nat) \<Rightarrow> loc \<Rightarrow> constraint" where
  "production_row d vq s =
     row_of (sum_le (map (the \<circ> vq) (source_routes d s)) (the (pSourceProduction d s))) (production_name s)"

definition demand_row :: "data \<Rightarrow> (route \<rightharpoonup> nat) \<Rightarrow> loc \<Rightarrow> constraint" where
  "demand_row d vq c =
     row_of (sum_ge (map (the \<circ> vq) (customer_routes d c)) (the (pCustomerDemand d c))) (demand_name c)"

definition is_fixed :: "data \<Rightarrow> route \<Rightarrow> bool" where
  "is_fixed d k = (case dict_of (pFixedTransportation d) k of None \<Rightarrow> False | Some q \<Rightarrow> q \<noteq> 0)"

definition fixed_row :: "data \<Rightarrow> (route \<rightharpoonup> nat) \<Rightarrow> route \<Rightarrow> constraint" where
  "fixed_row d vq k =
     row_of (var_eq (the (vq k)) (the (dict_of (pFixedTransportation d) k))) (fixed_name (fst k) (snd k))"

definition quantity_variable :: "route \<Rightarrow> variable" where
  "quantity_variable k = \<lparr>v_name = quantity_name (fst k) (snd k), v_lb = Fin 0, v_ub = PosInf\<rparr>"

definition fixed_pairs :: "data \<Rightarrow> route list" where
  "fixed_pairs d =
     [(s, c). s \<leftarrow> sSources d, c \<leftarrow> sCustomers d,
        (s, c) \<in> set (sSources_Customers d) \<and> is_fixed d (s, c)]"

definition keys_present :: "data \<Rightarrow> bool" where
  "keys_present d =
     ((\<forall>s \<in> set (sSources d). pSourceProduction d s \<noteq> None) \<and>
      (\<forall>c \<in> set (sCustomers d). pCustomerDemand d c \<noteq> None) \<and>
      (\<forall>k \<in> set (route_pairs d). dict_of (pFixedTransportation d) k \<noteq> None))"

definition built_solver :: "data \<Rightarrow> solver" where
  "built_solver d =
     (let vq = snd (model_variables d)
      in \<lparr>variables = map quantity_variable (route_pairs d),
          constraints = map (production_row d vq) (sSources d) @ map (demand_row d vq) (sCustomers d)
                        @ map (fixed_row d vq) (fixed_pairs d),
          objective = map (\<lambda>k. (the (dict_of (pTransportationCosts d) k), the (vq k))) (route_pairs d)\<rparr>)"

definition built_model :: "data \<Rightarrow> model" where
  "built_model d = \<lparr>m_solver = built_solver d, vQuantityExchanged = snd (model_variables d)\<rparr>"

section \<open>Decoding the identifiers\<close>

lemma constraint_number_prefix:
  "constraint_number (a # b # ch # r) = py_int [ch]"
  by (simp add: constraint_number_def py_slice_def norm_index_def)

lemma constraint_number_production: "constraint_number (production_name s) = Inr 1"
  by (simp add: production_name_def constraint_number_prefix py_int_def digit_value_def)

lemma constraint_number_demand: "constraint_number (demand_name c) = Inr 2"
  by (simp add: demand_name_def constraint_number_prefix py_int_def digit_value_def)

lemma constraint_number_fixed: "constraint_number (fixed_name s c) = Inr 3"
  by (simp add: fixed_name_def constraint_number_prefix py_int_def digit_value_def)

lemma last_three: "length c = 3 \<Longrightarrow> py_slice (Some (- 3)) None (p @ c) = c"
  by (simp add: py_slice_def norm_index_def)

lemma source_slice:
  "length s = 3 \<Longrightarrow> length c = 3 \<Longrightarrow> py_slice (Some (- 7)) (Some (- 4)) (p @ s @ ''_'' @ c) = s"
  by (simp add: py_slice_def norm_index_def)

text \<open>
  C2 (as amended).  For a source code and a customer code of exactly three characters,
  the slices \<open>[-7:-4]\<close> and \<open>[-3:]\<close> of the variable's name give back the source and the
  customer; the slices \<open>[2:3]\<close> and \<open>[-3:]\<close> of a production or demand constraint's name
  give back its number (1 or 2) and its location; for a fixed-quantity constraint they
  give the number 3 and the customer code (the source code is not decoded).
\<close>

theorem identifier_round_trip:
  assumes "length s = 3" and "length c = 3"
  shows "variable_source (quantity_name s c) = s \<and>
         variable_customer (quantity_name s c) = c \<and>
         constraint_number (production_name s) = Inr 1 \<and>
         constraint_location (production_name s) = s \<and>
         constraint_number (demand_name c) = Inr 2 \<and>
         constraint_location (demand_name c) = c \<and>
         constraint_number (fixed_name s c) = Inr 3 \<and>
         constraint_location (fixed_name s c) = c"
proof -
  have "variable_source (quantity_name s c) = s"
    unfolding variable_source_def quantity_name_def using assms by (rule source_slice)
  moreover have "variable_customer (quantity_name s c) = c"
    unfolding variable_customer_def quantity_name_def
    using last_three [OF assms(2), of "''quantity_in_tons_'' @ s @ ''_''"] by simp
  moreover have "constraint_location (production_name s) = s"
    unfolding constraint_location_def production_name_def using assms(1) by (rule last_three)
  moreover have "constraint_location (demand_name c) = c"
    unfolding constraint_location_def demand_name_def using assms(2) by (rule last_three)
  moreover have "constraint_location (fixed_name s c) = c"
    unfolding constraint_location_def fixed_name_def
    using last_three [OF assms(2), of "''c03_fixed_'' @ s @ ''_''"] by simp
  ultimately show ?thesis
    by (simp add: constraint_number_production constraint_number_demand constraint_number_fixed)
qed

theorem identifier_round_trip_witness:
  "length ''Arn'' = 3 \<and> length ''Ams'' = 3 \<and>
   variable_source (quantity_name ''Arn'' ''Ams'') = ''Arn'' \<and>
   variable_customer (quantity_name ''Arn'' ''Ams'') = ''Ams'' \<and>
   constraint_number (production_name ''Arn'') = Inr 1 \<and>
   constraint_location (production_name ''Arn'') = ''Arn'' \<and>
   constraint_number (demand_name ''Ams'') = Inr 2 \<and>
   constraint_location (demand_name ''Ams'') = ''Ams'' \<and>
   constraint_number (fixed_name ''Arn'' ''Ams'') = Inr 3 \<and>
   constraint_location (fixed_name ''Arn'' ''Ams'') = ''Ams''"
  using identifier_round_trip [of "''Arn''" "''Ams''"] by simp

text \<open>
  C2 as stated fails for codes that do not have three characters: the route from Paris
  to Rome is decoded as the pair \<open>(is_, ome)\<close>.
\<close>

theorem identifier_round_trip_counterexample:
  "variable_source (quantity_name ''Paris'' ''Rome'') = ''is_'' \<and>
   variable_customer (quantity_name ''Paris'' ''Rome'') = ''ome'' \<and>
   (variable_source (quantity_name ''Paris'' ''Rome''),
    variable_customer (quantity_name ''Paris'' ''Rome'')) \<noteq> (''Paris'', ''Rome'')"
  by (simp add: variable_source_def variable_customer_def quantity_name_def
      py_slice_def norm_index_def)

section \<open>The narration\<close>

lemma round_half_even_of_int: "round_half_even (of_int k) = k"
  by (simp add: round_half_even_def)

lemma py_round2_idem: "py_round2 (py_round2 x) = py_round2 x"
  by (simp add: py_round2_def round_half_even_of_int)

lemma py_round2_example: "py_round2 (- 4 / 1000) = 0"
  by (simp add: py_round2_def round_half_even_def)

text \<open>
  C10.  The name of a fixed-quantity constraint decodes to the number 3, and the
  narration of the constraints prints nothing for it, whatever the shadow price and the
  sources.
\<close>

theorem fixed_flow_not_narrated:
  "constraint_number (fixed_name s c) = Inr 3 \<and>
   print_conclusions_constraints_sensibility_analysis (fixed_name s c) shadow_price sources = Inr []"
  by (simp add: print_conclusions_constraints_sensibility_analysis_def constraint_number_fixed)

text \<open>
  C8.  When the decoded number of a constraint is at most 2, the narration prints one
  line that ends with the decoded location; the text before the location ends with
  ``available in'' when the location is one of the sources and with ``supply at'' when
  it is not.
\<close>

theorem constraint_narration_side:
  assumes "constraint_number name = Inr n" and "n \<le> 2"
  shows "\<exists>ws t. print_conclusions_constraints_sensibility_analysis name sp sources = Inr [Print ws] \<and>
           last ws = Str (constraint_location name) \<and>
           last (butlast ws) = Str t \<and>
           suffix (if constraint_location name \<in> set sources then ''available in'' else ''supply at'') t"
  using assms
  by (auto simp add: print_conclusions_constraints_sensibility_analysis_def Let_def suffix_def)

theorem constraint_narration_side_witness:
  "constraint_number (production_name ''Arn'') = Inr 1 \<and> (1::int) \<le> 2 \<and>
   (\<exists>ws t. print_conclusions_constraints_sensibility_analysis (production_name ''Arn'') (- 1 / 5)
              [''Arn'', ''Gou''] = Inr [Print ws] \<and>
      last ws = Str ''Arn'' \<and> last (butlast ws) = Str t \<and> suffix ''available in'' t) \<and>
   constraint_number (demand_name ''Ams'') = Inr 2 \<and> (2::int) \<le> 2 \<and>
   (\<exists>ws t. print_conclusions_constraints_sensibility_analysis (demand_name ''Ams'') (5 / 2)
              [''Arn'', ''Gou''] = Inr [Print ws] \<and>
      last ws = Str ''Ams'' \<and> last (butlast ws) = Str t \<and> suffix ''supply at'' t) \<and>
   print_conclusions_constraints_sensibility_analysis (production_name ''Arn'') (- 1 / 5)
     [''Arn'', ''Gou''] =
     Inr [Print [Str ''The total transportation cost would be reduced by'', Num (1 / 5),
                 Str ''euros for each additional ton available in'', Str ''Arn'']] \<and>
   print_conclusions_constraints_sensibility_analysis (demand_name ''Ams'') (5 / 2)
     [''Arn'', ''Gou''] =
     Inr [Print [Str ''The total transportation cost would be increased in'', Num (5 / 2),
                 Str ''euros for each additional ton supply at'', Str ''Ams'']]"
proof -
  have la: "constraint_location (production_name ''Arn'') = ''Arn''"
    by (simp add: constraint_location_def production_name_def py_slice_def norm_index_def)
  have lb: "constraint_location (demand_name ''Ams'') = ''Ams''"
    by (simp add: constraint_location_def demand_name_def py_slice_def norm_index_def)
  have r1: "py_round2 (- 1 / 5) = - 1 / 5"
    by (simp add: py_round2_def round_half_even_def)
  have r2: "py_round2 (5 / 2) = 5 / 2"
    by (simp add: py_round2_def round_half_even_def)
  have a: "\<exists>ws t. print_conclusions_constraints_sensibility_analysis (production_name ''Arn'') (- 1 / 5)
              [''Arn'', ''Gou''] = Inr [Print ws] \<and>
      last ws = Str ''Arn'' \<and> last (butlast ws) = Str t \<and> suffix ''available in'' t"
    using constraint_narration_side [OF constraint_number_production, of "''Arn''" "- 1 / 5" "[''Arn'', ''Gou'']"]
    by (simp add: la)
  have b: "\<exists>ws t. print_conclusions_constraints_sensibility_analysis (demand_name ''Ams'') (5 / 2)
              [''Arn'', ''Gou''] = Inr [Print ws] \<and>
      last ws = Str ''Ams'' \<and> last (butlast ws) = Str t \<and> suffix ''supply at'' t"
    using constraint_narration_side [OF constraint_number_demand, of "''Ams''" "5 / 2" "[''Arn'', ''Gou'']"]
    by (simp add: lb)
  have c: "print_conclusions_constraints_sensibility_analysis (production_name ''Arn'') (- 1 / 5)
     [''Arn'', ''Gou''] =
     Inr [Print [Str ''The total transportation cost would be reduced by'', Num (1 / 5),
                 Str ''euros for each additional ton available in'', Str ''Arn'']]"
    unfolding print_conclusions_constraints_sensibility_analysis_def
      constraint_number_production la r1
    by simp
  have d: "print_conclusions_constraints_sensibility_analysis (demand_name ''Ams'') (5 / 2)
     [''Arn'', ''Gou''] =
     Inr [Print [Str ''The total transportation cost would be increased in'', Num (5 / 2),
                 Str ''euros for each additional ton supply at'', Str ''Ams'']]"
    unfolding print_conclusions_constraints_sensibility_analysis_def
      constraint_number_demand lb r2
    by simp
  from a b c d show ?thesis
    by (simp add: constraint_number_production constraint_number_demand)
qed

lemma constraints_narration_rounded:
  "print_conclusions_constraints_sensibility_analysis cn (py_round2 x) srcs =
   print_conclusions_constraints_sensibility_analysis cn x srcs"
  unfolding print_conclusions_constraints_sensibility_analysis_def py_round2_idem ..

lemma variables_narration_rounded:
  "print_conclusions_variables_sensibility_analysis vn (py_round2 x) =
   print_conclusions_variables_sensibility_analysis vn x"
  unfolding print_conclusions_variables_sensibility_analysis_def py_round2_idem ..

lemma narration_of_small_value:
  "print_conclusions_variables_sensibility_analysis vn x =
     print_conclusions_variables_sensibility_analysis vn (py_round2 x) \<and>
   print_conclusions_constraints_sensibility_analysis cn x srcs =
     print_conclusions_constraints_sensibility_analysis cn (py_round2 x) srcs \<and>
   py_round2 (- 4 / 1000) = 0 \<and>
   print_conclusions_variables_sensibility_analysis vn (- 4 / 1000) =
     [Print [Str ''The total transportation cost would remain equal for each ton supply from'',
             Str (variable_source vn), Str ''to'', Str (variable_customer vn)]] \<and>
   print_conclusions_constraints_sensibility_analysis (production_name s) (- 4 / 1000) srcs =
     Inr [Print [Str (if constraint_location (production_name s) \<in> set srcs
                      then ''The total transportation cost would remain equal for each additional ton available in''
                      else ''The total transportation cost would remain equal for each additional ton supply at''),
                 Str (constraint_location (production_name s))]] \<and>
   print_conclusions_constraints_sensibility_analysis (demand_name c) (- 4 / 1000) srcs =
     Inr [Print [Str (if constraint_location (demand_name c) \<in> set srcs
                      then ''The total transportation cost would remain equal for each additional ton available in''
                      else ''The total transportation cost would remain equal for each additional ton supply at''),
                 Str (constraint_location (demand_name c))]]"
proof -
  have v: "print_conclusions_variables_sensibility_analysis vn (- 4 / 1000) =
     [Print [Str ''The total transportation cost would remain equal for each ton supply from'',
             Str (variable_source vn), Str ''to'', Str (variable_customer vn)]]"
    unfolding print_conclusions_variables_sensibility_analysis_def py_round2_example
    by simp
  have p: "print_conclusions_constraints_sensibility_analysis (production_name s) (- 4 / 1000) srcs =
     Inr [Print [Str (if constraint_location (production_name s) \<in> set srcs
                      then ''The total transportation cost would remain equal for each additional ton available in''
                      else ''The total transportation cost would remain equal for each additional ton supply at''),
                 Str (constraint_location (production_name s))]]"
    unfolding print_conclusions_constraints_sensibility_analysis_def py_round2_example
      constraint_number_production
    by simp
  have d: "print_conclusions_constraints_sensibility_analysis (demand_name c) (- 4 / 1000) srcs =
     Inr [Print [Str (if constraint_location (demand_name c) \<in> set srcs
                      then ''The total transportation cost would remain equal for each additional ton available in''
                      else ''The total transportation cost would remain equal for each additional ton supply at''),
                 Str (constraint_location (demand_name c))]]"
    unfolding print_conclusions_constraints_sensibility_analysis_def py_round2_example
      constraint_number_demand
    by simp
  from v p d show ?thesis
    by (simp only: constraints_narration_rounded variables_narration_rounded py_round2_example
        simp_thms)
qed

subsection \<open>Rounding to two decimals\<close>

lemma round_half_even_near:
  "\<bar>x - of_int (round_half_even x)\<bar> \<le> 1 / 2 \<and>
   (\<bar>x - of_int (round_half_even x)\<bar> = 1 / 2 \<longrightarrow> even (round_half_even x))"
proof -
  define f where "f = \<lfloor>x\<rfloor>"
  define d where "d = x - of_int f"
  have d: "0 \<le> d" "d < 1"
    unfolding d_def f_def by linarith+
  have x: "x = of_int f + d"
    by (simp add: d_def)
  have rd: "round_half_even x =
      (if d < 1 / 2 then f else if 1 / 2 < d then f + 1 else if even f then f else f + 1)"
    unfolding round_half_even_def Let_def d_def f_def ..
  consider "d < 1 / 2" | "1 / 2 < d" | "d = 1 / 2" "even f" | "d = 1 / 2" "odd f"
    by fastforce
  then show ?thesis
  proof cases
    case 1
    then have "round_half_even x = f"
      by (simp add: rd)
    with 1 d show ?thesis by (simp add: x)
  next
    case 2
    then have "round_half_even x = f + 1"
      by (simp add: rd)
    with 2 d show ?thesis by (simp add: x)
  next
    case 3
    then have "round_half_even x = f"
      by (simp add: rd)
    with 3 show ?thesis by (simp add: x)
  next
    case 4
    then have "round_half_even x = f + 1"
      by (simp add: rd)
    with 4 show ?thesis by (simp add: x)
  qed
qed

lemma py_round2_near:
  "\<exists>k. py_round2 x = of_int k / 100 \<and> \<bar>x - of_int k / 100\<bar> \<le> 1 / 200 \<and>
       (\<bar>x - of_int k / 100\<bar> = 1 / 200 \<longrightarrow> even k)"
proof -
  define k where "k = round_half_even (x * 100)"
  note r = round_half_even_near [of "x * 100", folded k_def]
  have e: "\<bar>x - of_int k / 100\<bar> = \<bar>x * 100 - of_int k\<bar> / 100"
    by (simp add: abs_if field_simps)
  have "py_round2 x = of_int k / 100"
    by (simp add: py_round2_def k_def)
  moreover have "\<bar>x - of_int k / 100\<bar> \<le> 1 / 200"
    using r unfolding e by simp
  moreover have "\<bar>x - of_int k / 100\<bar> = 1 / 200 \<longrightarrow> even k"
    using r unfolding e by simp
  ultimately show ?thesis by blast
qed

lemma py_round2_sign:
  "(x < - (1 / 200) \<longrightarrow> py_round2 x < 0) \<and> (\<bar>x\<bar> \<le> 1 / 200 \<longrightarrow> py_round2 x = 0) \<and>
   (1 / 200 < x \<longrightarrow> 0 < py_round2 x)"
proof -
  obtain k where k: "py_round2 x = of_int k / 100" "\<bar>x - of_int k / 100\<bar> \<le> 1 / 200"
    "\<bar>x - of_int k / 100\<bar> = 1 / 200 \<longrightarrow> even k"
    using py_round2_near by blast
  have neg: "x < - (1 / 200) \<longrightarrow> py_round2 x < 0"
  proof
    assume "x < - (1 / 200)"
    with k(2) have "(of_int k :: real) < 0" by (simp add: abs_if split: if_splits)
    then show "py_round2 x < 0" by (simp add: k(1))
  qed
  have pos: "1 / 200 < x \<longrightarrow> 0 < py_round2 x"
  proof
    assume "1 / 200 < x"
    with k(2) have "0 < (of_int k :: real)" by (simp add: abs_if split: if_splits)
    then show "0 < py_round2 x" by (simp add: k(1))
  qed
  have zero: "\<bar>x\<bar> \<le> 1 / 200 \<longrightarrow> py_round2 x = 0"
  proof
    assume a: "\<bar>x\<bar> \<le> 1 / 200"
    with k(2) have "\<bar>of_int k :: real\<bar> \<le> 1" by (simp add: abs_if split: if_splits)
    then have "\<bar>k\<bar> \<le> 1" by linarith
    then consider "k = 0" | "k = 1" | "k = - 1" by linarith
    then show "py_round2 x = 0"
    proof cases
      case 1
      then show ?thesis by (simp add: k(1))
    next
      case 2
      with k(2) a have "\<bar>x - of_int k / 100\<bar> = 1 / 200" by (simp add: abs_if split: if_splits)
      with k(3) 2 show ?thesis by simp
    next
      case 3
      with k(2) a have "\<bar>x - of_int k / 100\<bar> = 1 / 200" by (simp add: abs_if split: if_splits)
      with k(3) 3 show ?thesis by simp
    qed
  qed
  from neg zero pos show ?thesis by blast
qed

subsection \<open>The wording follows the sign of the rounded value\<close>

lemma variables_wording:
  "(py_round2 x < 0 \<longrightarrow>
      print_conclusions_variables_sensibility_analysis vn x =
        [Print [Str ''The total transportation cost would be reduced by'', Num \<bar>py_round2 x\<bar>,
                Str ''euros for each ton supply from'', Str (variable_source vn),
                Str ''to'', Str (variable_customer vn)]]) \<and>
   (0 < py_round2 x \<longrightarrow>
      print_conclusions_variables_sensibility_analysis vn x =
        [Print [Str ''The total cost would be increased in'', Num (py_round2 x),
                Str ''euros for each ton supply from'', Str (variable_source vn),
                Str ''to'', Str (variable_customer vn)]]) \<and>
   (py_round2 x = 0 \<longrightarrow>
      print_conclusions_variables_sensibility_analysis vn x =
        [Print [Str ''The total transportation cost would remain equal for each ton supply from'',
                Str (variable_source vn), Str ''to'', Str (variable_customer vn)]])"
  by (simp add: print_conclusions_variables_sensibility_analysis_def Let_def)

lemma constraints_wording:
  "constraint_number cn = Inr n \<and> n \<le> 2 \<longrightarrow>
     (py_round2 x < 0 \<longrightarrow>
        print_conclusions_constraints_sensibility_analysis cn x srcs =
          Inr [Print [Str ''The total transportation cost would be reduced by'', Num \<bar>py_round2 x\<bar>,
                      Str (if constraint_location cn \<in> set srcs
                           then ''euros for each additional ton available in''
                           else ''euros for each additional ton supply at''),
                      Str (constraint_location cn)]]) \<and>
     (0 < py_round2 x \<longrightarrow>
        print_conclusions_constraints_sensibility_analysis cn x srcs =
          Inr [Print [Str ''The total transportation cost would be increased in'', Num (py_round2 x),
                      Str (if constraint_location cn \<in> set srcs
                           then ''euros for each additional ton available in''
                           else ''euros for each additional ton supply at''),
                      Str (constraint_location cn)]]) \<and>
     (py_round2 x = 0 \<longrightarrow>
        print_conclusions_constraints_sensibility_analysis cn x srcs =
          Inr [Print [Str (if constraint_location cn \<in> set srcs
                           then ''The total transportation cost would remain equal for each additional ton available in''
                           else ''The total transportation cost would remain equal for each additional ton supply at''),
                      Str (constraint_location cn)]])"
  by (simp add: print_conclusions_constraints_sensibility_analysis_def Let_def)

text \<open>
  C6.  \<open>round(x, 2)\<close> is a multiple of 0.01 nearest to \<open>x\<close> (the even multiple at a
  tie); so it is negative when \<open>x < -0.005\<close>, zero when \<open>-0.005 \<le> x \<le> 0.005\<close> and
  positive when \<open>0.005 < x\<close>.  Both narrations choose their wording by the sign of this
  rounded value, and print its absolute value: ``reduced by'' when it is negative,
  ``increased in'' when it is positive, ``remain equal'' when it is zero; for a
  constraint this is so when the decoded number is at most 2.  What they print for a
  value is what they print for its rounding.  The value \<open>-0.004\<close> rounds to 0, and for
  it the narration of a variable, of a production constraint and of a demand constraint
  prints the line ``would remain equal''.
\<close>

theorem sign_test_on_rounded_value:
  "(\<exists>k. py_round2 x = of_int k / 100 \<and> \<bar>x - of_int k / 100\<bar> \<le> 1 / 200 \<and>
        (\<bar>x - of_int k / 100\<bar> = 1 / 200 \<longrightarrow> even k)) \<and>
   ((x < - (1 / 200) \<longrightarrow> py_round2 x < 0) \<and> (\<bar>x\<bar> \<le> 1 / 200 \<longrightarrow> py_round2 x = 0) \<and>
    (1 / 200 < x \<longrightarrow> 0 < py_round2 x)) \<and>
   ((py_round2 x < 0 \<longrightarrow>
      print_conclusions_variables_sensibility_analysis vn x =
        [Print [Str ''The total transportation cost would be reduced by'', Num \<bar>py_round2 x\<bar>,
                Str ''euros for each ton supply from'', Str (variable_source vn),
                Str ''to'', Str (variable_customer vn)]]) \<and>
    (0 < py_round2 x \<longrightarrow>
      print_conclusions_variables_sensibility_analysis vn x =
        [Print [Str ''The total cost would be increased in'', Num (py_round2 x),
                Str ''euros for each ton supply from'', Str (variable_source vn),
                Str ''to'', Str (variable_customer vn)]]) \<and>
    (py_round2 x = 0 \<longrightarrow>
      print_conclusions_variables_sensibility_analysis vn x =
        [Print [Str ''The total transportation cost would remain equal for each ton supply from'',
                Str (variable_source vn), Str ''to'', Str (variable_customer vn)]])) \<and>
   (constraint_number cn = Inr n \<and> n \<le> 2 \<longrightarrow>
     (py_round2 x < 0 \<longrightarrow>
        print_conclusions_constraints_sensibility_analysis cn x srcs =
          Inr [Print [Str ''The total transportation cost would be reduced by'', Num \<bar>py_round2 x\<bar>,
                      Str (if constraint_location cn \<in> set srcs
                           then ''euros for each additional ton available in''
                           else ''euros for each additional ton supply at''),
                      Str (constraint_location cn)]]) \<and>
     (0 < py_round2 x \<longrightarrow>
        print_conclusions_constraints_sensibility_analysis cn x srcs =
          Inr [Print [Str ''The total transportation cost would be increased in'', Num (py_round2 x),
                      Str (if constraint_location cn \<in> set srcs
                           then ''euros for each additional ton available in''
                           else ''euros for each additional ton supply at''),
                      Str (constraint_location cn)]]) \<and>
     (py_round2 x = 0 \<longrightarrow>
        print_conclusions_constraints_sensibility_analysis cn x srcs =
          Inr [Print [Str (if constraint_location cn \<in> set srcs
                           then ''The total transportation cost would remain equal for each additional ton available in''
                           else ''The total transportation cost would remain equal for each additional ton supply at''),
                      Str (constraint_location cn)]])) \<and>
   (print_conclusions_variables_sensibility_analysis vn x =
     print_conclusions_variables_sensibility_analysis vn (py_round2 x) \<and>
   print_conclusions_constraints_sensibility_analysis cn x srcs =
     print_conclusions_constraints_sensibility_analysis cn (py_round2 x) srcs \<and>
   py_round2 (- 4 / 1000) = 0 \<and>
   print_conclusions_variables_sensibility_analysis vn (- 4 / 1000) =
     [Print [Str ''The total transportation cost would remain equal for each ton supply from'',
             Str (variable_source vn), Str ''to'', Str (variable_customer vn)]] \<and>
   print_conclusions_constraints_sensibility_analysis (production_name s) (- 4 / 1000) srcs =
     Inr [Print [Str (if constraint_location (production_name s) \<in> set srcs
                      then ''The total transportation cost would remain equal for each additional ton available in''
                      else ''The total transportation cost would remain equal for each additional ton supply at''),
                 Str (constraint_location (production_name s))]] \<and>
   print_conclusions_constraints_sensibility_analysis (demand_name c) (- 4 / 1000) srcs =
     Inr [Print [Str (if constraint_location (demand_name c) \<in> set srcs
                      then ''The total transportation cost would remain equal for each additional ton available in''
                      else ''The total transportation cost would remain equal for each additional ton supply at''),
                 Str (constraint_location (demand_name c))]])"
  by (rule conjI, rule py_round2_near, rule conjI, rule py_round2_sign,
      rule conjI, rule variables_wording, rule conjI, rule constraints_wording,
      rule narration_of_small_value)

theorem sign_test_on_rounded_value_witness:
  "\<bar>- 4 / 1000 :: real\<bar> \<le> 1 / 200 \<and> py_round2 (- 4 / 1000) = 0 \<and>
   print_conclusions_variables_sensibility_analysis ''quantity_in_tons_Arn_Ams'' (- 4 / 1000) =
     [Print [Str ''The total transportation cost would remain equal for each ton supply from'',
             Str ''Arn'', Str ''to'', Str ''Ams'']] \<and>
   (- 3 / 500 :: real) < - (1 / 200) \<and> py_round2 (- 3 / 500) < 0 \<and>
   py_round2 (- 3 / 500) = - 1 / 100 \<and>
   print_conclusions_variables_sensibility_analysis ''quantity_in_tons_Arn_Ams'' (- 3 / 500) =
     [Print [Str ''The total transportation cost would be reduced by'', Num (1 / 100),
             Str ''euros for each ton supply from'', Str ''Arn'', Str ''to'', Str ''Ams'']] \<and>
   (1 / 200 :: real) < 3 / 5 \<and> 0 < py_round2 (3 / 5) \<and> py_round2 (3 / 5) = 3 / 5 \<and>
   print_conclusions_variables_sensibility_analysis ''quantity_in_tons_Arn_Ams'' (3 / 5) =
     [Print [Str ''The total cost would be increased in'', Num (3 / 5),
             Str ''euros for each ton supply from'', Str ''Arn'', Str ''to'', Str ''Ams'']] \<and>
   constraint_number ''c01_production_Arn'' = Inr 1 \<and> (1 :: int) \<le> 2 \<and>
   py_round2 (- 1 / 5) < 0 \<and>
   print_conclusions_constraints_sensibility_analysis ''c01_production_Arn'' (- 1 / 5)
       [''Arn'', ''Gou''] =
     Inr [Print [Str ''The total transportation cost would be reduced by'', Num (1 / 5),
                 Str ''euros for each additional ton available in'', Str ''Arn'']] \<and>
   print_conclusions_constraints_sensibility_analysis ''c01_production_Arn'' (- 4 / 1000)
       [''Arn'', ''Gou''] =
     Inr [Print [Str ''The total transportation cost would remain equal for each additional ton available in'',
                 Str ''Arn'']]"
proof -
  let ?vn = "''quantity_in_tons_Arn_Ams''"
  let ?cn = "''c01_production_Arn''"
  let ?srcs = "[''Arn'', ''Gou'']"
  note tz = sign_test_on_rounded_value [of "- 4 / 1000" ?vn ?cn 1 ?srcs]
  note tn = sign_test_on_rounded_value [of "- 3 / 500" ?vn ?cn 1 ?srcs]
  note tp = sign_test_on_rounded_value [of "3 / 5" ?vn ?cn 1 ?srcs]
  note tc = sign_test_on_rounded_value [of "- 1 / 5" ?vn ?cn 1 ?srcs]
  have vs: "variable_source ?vn = ''Arn''" and vc: "variable_customer ?vn = ''Ams''"
    by (simp_all add: variable_source_def variable_customer_def py_slice_def norm_index_def)
  have cl: "constraint_location ?cn = ''Arn''"
    by (simp add: constraint_location_def py_slice_def norm_index_def)
  have cn: "constraint_number ?cn = Inr 1"
    by (simp add: constraint_number_prefix py_int_def digit_value_def)
  have le: "(1 :: int) \<le> 2"
    by simp
  have hz: "\<bar>- 4 / 1000 :: real\<bar> \<le> 1 / 200"
    by simp
  have hn: "(- 3 / 500 :: real) < - (1 / 200)"
    by simp
  have hp: "(1 / 200 :: real) < 3 / 5"
    by simp
  have rn: "py_round2 (- 3 / 500) = - 1 / 100" and rp: "py_round2 (3 / 5) = 3 / 5"
    and rc: "py_round2 (- 1 / 5) = - 1 / 5"
    by (simp_all add: py_round2_def round_half_even_def)
  \<comment> \<open>the value -0.004\<close>
  from tz [THEN conjunct2, THEN conjunct1, THEN conjunct2, THEN conjunct1, THEN mp, OF hz]
  have z0: "py_round2 (- 4 / 1000) = 0" .
  from tz [THEN conjunct2, THEN conjunct2, THEN conjunct1, THEN conjunct2, THEN conjunct2,
      THEN mp, OF z0]
  have z1: "print_conclusions_variables_sensibility_analysis ?vn (- 4 / 1000) =
     [Print [Str ''The total transportation cost would remain equal for each ton supply from'',
             Str ''Arn'', Str ''to'', Str ''Ams'']]"
    unfolding vs vc .
  from tz [THEN conjunct2, THEN conjunct2, THEN conjunct2, THEN conjunct1, THEN mp,
      OF conjI [OF cn le], THEN conjunct2, THEN conjunct2, THEN mp, OF z0]
  have z2: "print_conclusions_constraints_sensibility_analysis ?cn (- 4 / 1000) ?srcs =
     Inr [Print [Str ''The total transportation cost would remain equal for each additional ton available in'',
                 Str ''Arn'']]"
    unfolding cl by simp
  \<comment> \<open>the value -0.006\<close>
  from tn [THEN conjunct2, THEN conjunct1, THEN conjunct1, THEN mp, OF hn]
  have n0: "py_round2 (- 3 / 500) < 0" .
  from tn [THEN conjunct2, THEN conjunct2, THEN conjunct1, THEN conjunct1, THEN mp, OF n0]
  have n1: "print_conclusions_variables_sensibility_analysis ?vn (- 3 / 500) =
     [Print [Str ''The total transportation cost would be reduced by'', Num (1 / 100),
             Str ''euros for each ton supply from'', Str ''Arn'', Str ''to'', Str ''Ams'']]"
    unfolding vs vc rn by simp
  \<comment> \<open>the value 0.6\<close>
  from tp [THEN conjunct2, THEN conjunct1, THEN conjunct2, THEN conjunct2, THEN mp, OF hp]
  have p0: "0 < py_round2 (3 / 5)" .
  from tp [THEN conjunct2, THEN conjunct2, THEN conjunct1, THEN conjunct2, THEN conjunct1,
      THEN mp, OF p0]
  have p1: "print_conclusions_variables_sensibility_analysis ?vn (3 / 5) =
     [Print [Str ''The total cost would be increased in'', Num (3 / 5),
             Str ''euros for each ton supply from'', Str ''Arn'', Str ''to'', Str ''Ams'']]"
    unfolding vs vc rp .
  \<comment> \<open>a shadow price of -0.2\<close>
  have c0: "py_round2 (- 1 / 5) < 0"
    unfolding rc by simp
  from tc [THEN conjunct2, THEN conjunct2, THEN conjunct2, THEN conjunct1, THEN mp,
      OF conjI [OF cn le], THEN conjunct1, THEN mp, OF c0]
  have c1: "print_conclusions_constraints_sensibility_analysis ?cn (- 1 / 5) ?srcs =
     Inr [Print [Str ''The total transportation cost would be reduced by'', Num (1 / 5),
                 Str ''euros for each additional ton available in'', Str ''Arn'']]"
    unfolding cl rc by simp
  from hz z0 z1 hn n0 rn n1 hp p0 rp p1 cn le c0 c1 z2 show ?thesis
    by (intro conjI)
qed

section \<open>The model builder\<close>

lemma append_rows_Nil: "append_rows [] sv = sv"
  by (simp add: append_rows_def)

lemma append_rows_append: "append_rows rs2 (append_rows rs1 sv) = append_rows (rs1 @ rs2) sv"
  by (simp add: append_rows_def)

lemma Add_append_rows: "Add con name sv = append_rows [row_of con name] sv"
  by (cases con) (simp_all add: Add_def RowConstraint_def append_rows_def row_of_def)

lemma append_rows_fields:
  "variables (append_rows rs sv) = variables sv"
  "constraints (append_rows rs sv) = constraints sv @ rs"
  "objective (append_rows rs sv) = objective sv"
  by (simp_all add: append_rows_def)

subsection \<open>Dicts\<close>

lemma dom_fold_update:
  "dom (fold (\<lambda>(k, v) m. m(k \<mapsto> v)) items m0) = dom m0 \<union> fst ` set items"
  by (induction items arbitrary: m0) auto

lemma dom_dict_of: "dom (dict_of items) = fst ` set items"
  by (simp add: dict_of_def dom_fold_update)

lemma set_route_pairs:
  "set (route_pairs d) =
     {(s, c). s \<in> set (sSources d) \<and> c \<in> set (sCustomers d) \<and> (s, c) \<in> set (sSources_Customers d)}"
  by (auto simp add: route_pairs_def)

lemma route_pairs_concat: "route_pairs d = concat (map (source_routes d) (sSources d))"
  by (simp add: route_pairs_def source_routes_def [abs_def])

subsection \<open>Creation of the variables\<close>

lemma create_variables_solver:
  "fst (create_variables ks (sv, vq)) = sv\<lparr>variables := variables sv @ map quantity_variable ks\<rparr>"
  by (induction ks arbitrary: sv vq) (auto simp add: NumVar_def quantity_variable_def)

lemma create_variables_dom:
  "dom (snd (create_variables ks (sv, vq))) = dom vq \<union> set ks"
proof (induction ks arbitrary: sv vq)
  case Nil
  then show ?case by simp
next
  case (Cons a ks)
  obtain s c where a: "a = (s, c)" by (cases a)
  show ?case unfolding a by (simp add: NumVar_def Cons.IH) (auto simp add: dom_def)
qed

lemma create_variables_index:
  "snd (create_variables ks (sv, vq)) k = Some i \<Longrightarrow>
     vq k = Some i \<or>
     (length (variables sv) \<le> i \<and> i < length (variables sv) + length ks \<and>
      ks ! (i - length (variables sv)) = k)"
proof (induction ks arbitrary: sv vq)
  case Nil
  then show ?case by simp
next
  case (Cons a ks)
  obtain s c where a: "a = (s, c)" by (cases a)
  let ?sv = "snd (NumVar (Fin 0) PosInf (quantity_name s c) sv)"
  let ?vq = "vq((s, c) \<mapsto> length (variables sv))"
  from Cons.prems a have "snd (create_variables ks (?sv, ?vq)) k = Some i"
    by (simp add: NumVar_def)
  from Cons.IH [OF this] have
    "?vq k = Some i \<or>
     (length (variables ?sv) \<le> i \<and> i < length (variables ?sv) + length ks \<and>
      ks ! (i - length (variables ?sv)) = k)" .
  then show ?case
  proof
    assume "?vq k = Some i"
    then show ?thesis using a by (auto split: if_splits)
  next
    assume h: "length (variables ?sv) \<le> i \<and> i < length (variables ?sv) + length ks \<and>
      ks ! (i - length (variables ?sv)) = k"
    have len: "length (variables ?sv) = Suc (length (variables sv))"
      by (simp add: NumVar_def)
    from h len have "(a # ks) ! (i - length (variables sv)) = k"
      by (simp add: nth_Cons')
    with h len show ?thesis by auto
  qed
qed

lemma model_variables_solver:
  "fst (model_variables d) =
     \<lparr>variables = map quantity_variable (route_pairs d), constraints = [], objective = []\<rparr>"
  by (simp add: model_variables_def create_variables_solver CreateSolver_def)

lemma model_variables_dom: "dom (snd (model_variables d)) = set (route_pairs d)"
  by (simp add: model_variables_def create_variables_dom)

lemma model_variables_index:
  assumes "snd (model_variables d) k = Some i"
  shows "i < length (route_pairs d) \<and> route_pairs d ! i = k"
  using create_variables_index [of "route_pairs d" CreateSolver Map.empty k i] assms
  by (simp add: model_variables_def CreateSolver_def)

lemma model_variables_inj:
  "snd (model_variables d) k = Some i \<Longrightarrow> snd (model_variables d) k' = Some i \<Longrightarrow> k = k'"
  using model_variables_index by blast

subsection \<open>The three loops and the objective\<close>

lemma lookup_all_ok: "set ks \<subseteq> dom vq \<Longrightarrow> lookup_all vq ks = Inr (map (the \<circ> vq) ks)"
  by (induction ks) auto

lemma add_production_closed:
  assumes "\<forall>s \<in> set ss. set (source_routes d s) \<subseteq> dom vq"
  shows "add_production d vq ss sv =
           (if \<forall>s \<in> set ss. pSourceProduction d s \<noteq> None
            then Inr (append_rows (map (production_row d vq) ss) sv) else Inl KeyError)"
  using assms
proof (induction ss arbitrary: sv)
  case Nil
  then show ?case by (simp add: append_rows_Nil)
next
  case (Cons s ss)
  have l: "lookup_all vq [(s, c). c \<leftarrow> sCustomers d, (s, c) \<in> set (sSources_Customers d)]
             = Inr (map (the \<circ> vq) (source_routes d s))"
    using Cons.prems lookup_all_ok [of "source_routes d s" vq] by (simp add: source_routes_def)
  show ?case
  proof (cases "pSourceProduction d s")
    case None
    then show ?thesis by (simp add: l)
  next
    case (Some b)
    have r: "row_of (sum_le (map (the \<circ> vq) (source_routes d s)) b) (production_name s)
               = production_row d vq s"
      by (simp add: production_row_def Some)
    show ?thesis using Cons Some
      by (simp add: l Add_append_rows append_rows_append r)
  qed
qed

lemma add_demand_closed:
  assumes "\<forall>c \<in> set cs. set (customer_routes d c) \<subseteq> dom vq"
  shows "add_demand d vq cs sv =
           (if \<forall>c \<in> set cs. pCustomerDemand d c \<noteq> None
            then Inr (append_rows (map (demand_row d vq) cs) sv) else Inl KeyError)"
  using assms
proof (induction cs arbitrary: sv)
  case Nil
  then show ?case by (simp add: append_rows_Nil)
next
  case (Cons c cs)
  have l: "lookup_all vq [(s, c). s \<leftarrow> sSources d, (s, c) \<in> set (sSources_Customers d)]
             = Inr (map (the \<circ> vq) (customer_routes d c))"
    using Cons.prems lookup_all_ok [of "customer_routes d c" vq] by (simp add: customer_routes_def)
  show ?case
  proof (cases "pCustomerDemand d c")
    case None
    then show ?thesis by (simp add: l)
  next
    case (Some b)
    have r: "row_of (sum_ge (map (the \<circ> vq) (customer_routes d c)) b) (demand_name c)
               = demand_row d vq c"
      by (simp add: demand_row_def Some)
    show ?thesis using Cons Some
      by (simp add: l Add_append_rows append_rows_append r)
  qed
qed

lemma add_fixed_customers_closed:
  assumes "\<forall>c \<in> set cs. (s, c) \<in> set (sSources_Customers d) \<longrightarrow> (s, c) \<in> dom vq"
  shows "add_fixed_customers d vq s cs sv =
           (if \<forall>c \<in> set cs. (s, c) \<in> set (sSources_Customers d) \<longrightarrow>
                 dict_of (pFixedTransportation d) (s, c) \<noteq> None
            then Inr (append_rows (map (fixed_row d vq)
                   [(s, c). c \<leftarrow> cs, (s, c) \<in> set (sSources_Customers d) \<and> is_fixed d (s, c)]) sv)
            else Inl KeyError)"
  using assms
proof (induction cs arbitrary: sv)
  case Nil
  then show ?case by (simp add: append_rows_Nil)
next
  case (Cons c cs)
  show ?case
  proof (cases "(s, c) \<in> set (sSources_Customers d)")
    case False
    then show ?thesis using Cons by simp
  next
    case True
    then obtain v where v: "vq (s, c) = Some v" using Cons.prems by auto
    show ?thesis
    proof (cases "dict_of (pFixedTransportation d) (s, c)")
      case None
      then show ?thesis using True by auto
    next
      case (Some q)
      have r: "row_of (var_eq v q) (fixed_name s c) = fixed_row d vq (s, c)"
        by (simp add: fixed_row_def Some v)
      have fx: "is_fixed d (s, c) \<longleftrightarrow> q \<noteq> 0"
        by (simp add: is_fixed_def Some)
      show ?thesis using True v Cons Some
        by (simp add: fx Add_append_rows append_rows_append r) fastforce
    qed
  qed
qed

lemma add_fixed_closed:
  assumes "\<forall>s \<in> set ss. \<forall>c \<in> set (sCustomers d).
             (s, c) \<in> set (sSources_Customers d) \<longrightarrow> (s, c) \<in> dom vq"
  shows "add_fixed d vq ss sv =
           (if \<forall>s \<in> set ss. \<forall>c \<in> set (sCustomers d). (s, c) \<in> set (sSources_Customers d) \<longrightarrow>
                 dict_of (pFixedTransportation d) (s, c) \<noteq> None
            then Inr (append_rows (map (fixed_row d vq)
                   [(s, c). s \<leftarrow> ss, c \<leftarrow> sCustomers d,
                      (s, c) \<in> set (sSources_Customers d) \<and> is_fixed d (s, c)]) sv)
            else Inl KeyError)"
  using assms
proof (induction ss arbitrary: sv)
  case Nil
  then show ?case by (simp add: append_rows_Nil)
next
  case (Cons s ss)
  have inner: "\<forall>c \<in> set (sCustomers d). (s, c) \<in> set (sSources_Customers d) \<longrightarrow> (s, c) \<in> dom vq"
    using Cons.prems by simp
  have rest: "\<forall>s \<in> set ss. \<forall>c \<in> set (sCustomers d).
             (s, c) \<in> set (sSources_Customers d) \<longrightarrow> (s, c) \<in> dom vq"
    using Cons.prems by simp
  show ?case
    by (simp add: add_fixed_customers_closed [OF inner] Cons.IH [OF rest] append_rows_append)
qed

lemma objective_terms_ok:
  "set ks \<subseteq> dom pc \<Longrightarrow> set ks \<subseteq> dom vq \<Longrightarrow>
     objective_terms pc vq ks = Inr (map (\<lambda>k. (the (pc k), the (vq k))) ks)"
  by (induction ks) auto

lemma source_routes_subset: "s \<in> set (sSources d) \<Longrightarrow> set (source_routes d s) \<subseteq> set (route_pairs d)"
  by (auto simp add: source_routes_def set_route_pairs)

lemma customer_routes_subset: "c \<in> set (sCustomers d) \<Longrightarrow> set (customer_routes d c) \<subseteq> set (route_pairs d)"
  by (auto simp add: customer_routes_def set_route_pairs)

lemma route_pairs_costs: "set (route_pairs d) \<subseteq> dom (dict_of (pTransportationCosts d))"
  by (auto simp add: set_route_pairs dom_dict_of sSources_Customers_def)

lemma build_model_closed:
  "build_model d =
     (if keys_present d
      then Inr \<lparr>m_solver = built_solver d, vQuantityExchanged = snd (model_variables d)\<rparr>
      else Inl KeyError)"
proof -
  obtain sv0 vq where mv: "model_variables d = (sv0, vq)" by (cases "model_variables d")
  have sv0: "sv0 = \<lparr>variables = map quantity_variable (route_pairs d), constraints = [], objective = []\<rparr>"
    using model_variables_solver [of d] mv by simp
  have dom: "dom vq = set (route_pairs d)"
    using model_variables_dom [of d] mv by simp
  have p: "\<forall>s \<in> set (sSources d). set (source_routes d s) \<subseteq> dom vq"
    using source_routes_subset dom by blast
  have c: "\<forall>c \<in> set (sCustomers d). set (customer_routes d c) \<subseteq> dom vq"
    using customer_routes_subset dom by blast
  have f: "\<forall>s \<in> set (sSources d). \<forall>c \<in> set (sCustomers d).
             (s, c) \<in> set (sSources_Customers d) \<longrightarrow> (s, c) \<in> dom vq"
    using dom by (auto simp add: set_route_pairs)
  have ob: "objective_terms (dict_of (pTransportationCosts d)) vq (route_pairs d)
             = Inr (map (\<lambda>k. (the (dict_of (pTransportationCosts d) k), the (vq k))) (route_pairs d))"
    using objective_terms_ok [OF route_pairs_costs, of d vq] dom by simp
  have kp: "keys_present d \<longleftrightarrow>
      (\<forall>s \<in> set (sSources d). pSourceProduction d s \<noteq> None) \<and>
      (\<forall>c \<in> set (sCustomers d). pCustomerDemand d c \<noteq> None) \<and>
      (\<forall>s \<in> set (sSources d). \<forall>c \<in> set (sCustomers d). (s, c) \<in> set (sSources_Customers d) \<longrightarrow>
                 dict_of (pFixedTransportation d) (s, c) \<noteq> None)"
    by (auto simp add: keys_present_def set_route_pairs)
  show ?thesis
    unfolding build_model_def mv
    by (simp add: add_production_closed [OF p] add_demand_closed [OF c] add_fixed_closed [OF f] ob
        kp append_rows_append built_solver_def mv fixed_pairs_def Minimize_def append_rows_def sv0)
qed

subsection \<open>The rows of a built model\<close>

lemma row_of_name: "c_name (row_of con name) = name"
  by (cases con) (simp_all add: row_of_def)

lemma production_row_name: "c_name (production_row d vq s) = production_name s"
  by (simp add: production_row_def row_of_name)

lemma demand_row_name: "c_name (demand_row d vq c) = demand_name c"
  by (simp add: demand_row_def row_of_name)

lemma fixed_row_name: "c_name (fixed_row d vq k) = fixed_name (fst k) (snd k)"
  by (simp add: fixed_row_def row_of_name)

lemma production_row_terms: "c_terms (production_row d vq s) = map (the \<circ> vq) (source_routes d s)"
  by (simp add: production_row_def row_of_def sum_le_def)

lemma demand_row_terms: "c_terms (demand_row d vq c) = map (the \<circ> vq) (customer_routes d c)"
  by (simp add: demand_row_def row_of_def sum_ge_def)

lemma fixed_row_eq:
  "fixed_row d vq k =
     \<lparr>c_name = fixed_name (fst k) (snd k), c_lb = Fin (the (dict_of (pFixedTransportation d) k)),
      c_ub = Fin (the (dict_of (pFixedTransportation d) k)), c_terms = [the (vq k)]\<rparr>"
  by (simp add: fixed_row_def row_of_def var_eq_def)

lemma set_fixed_pairs:
  "set (fixed_pairs d) = {k \<in> set (route_pairs d). is_fixed d k}"
  by (auto simp add: fixed_pairs_def set_route_pairs)

lemma build_model_Inr:
  assumes "build_model d = Inr m"
  shows "keys_present d" and "m_solver m = built_solver d"
    and "vQuantityExchanged m = snd (model_variables d)"
  using assms by (auto simp add: build_model_closed split: if_splits)

lemma built_solver_constraints:
  "constraints (built_solver d) =
     map (production_row d (snd (model_variables d))) (sSources d) @
     map (demand_row d (snd (model_variables d))) (sCustomers d) @
     map (fixed_row d (snd (model_variables d))) (fixed_pairs d)"
  by (simp add: built_solver_def Let_def)

lemma built_solver_variables:
  "variables (built_solver d) = map quantity_variable (route_pairs d)"
  by (simp add: built_solver_def Let_def)

lemma map_Some_the: "set ks \<subseteq> dom vq \<Longrightarrow> map Some (map (the \<circ> vq) ks) = map vq ks"
  by (induction ks) auto

lemma Some_the_variable:
  "k \<in> set (route_pairs d) \<Longrightarrow> Some (the (snd (model_variables d) k)) = snd (model_variables d) k"
proof -
  assume "k \<in> set (route_pairs d)"
  then have "k \<in> dom (snd (model_variables d))"
    by (simp add: model_variables_dom)
  then obtain v where "snd (model_variables d) k = Some v"
    by blast
  then show ?thesis by simp
qed

lemma fixed_pairs_subset: "set (fixed_pairs d) \<subseteq> set (route_pairs d)"
  by (auto simp add: set_fixed_pairs)

text \<open>The names, and the variables summed, of all the constraints of a built model.\<close>

lemma built_names:
  "map c_name (constraints (built_solver d)) =
     map production_name (sSources d) @ map demand_name (sCustomers d) @
     map (\<lambda>(s, c). fixed_name s c) (fixed_pairs d)"
  by (simp add: built_solver_constraints production_row_name demand_row_name fixed_row_name
      case_prod_beta comp_def)

lemma built_terms:
  "map (\<lambda>r. map Some (c_terms r)) (constraints (built_solver d)) =
     map (\<lambda>s. map (snd (model_variables d)) (source_routes d s)) (sSources d) @
     map (\<lambda>c. map (snd (model_variables d)) (customer_routes d c)) (sCustomers d) @
     map (\<lambda>k. [snd (model_variables d) k]) (fixed_pairs d)"
proof -
  let ?vq = "snd (model_variables d)"
  have p: "map (\<lambda>r. map Some (c_terms r)) (map (production_row d ?vq) (sSources d))
            = map (\<lambda>s. map ?vq (source_routes d s)) (sSources d)"
    unfolding map_map comp_def
  proof (rule map_cong [OF refl])
    fix s assume "s \<in> set (sSources d)"
    then have "set (source_routes d s) \<subseteq> dom ?vq"
      using source_routes_subset [of s d] by (simp add: model_variables_dom)
    then have "map Some (map (the \<circ> ?vq) (source_routes d s)) = map ?vq (source_routes d s)"
      by (rule map_Some_the)
    then show "map Some (c_terms (production_row d ?vq s)) = map ?vq (source_routes d s)"
      by (simp only: production_row_terms)
  qed
  have c: "map (\<lambda>r. map Some (c_terms r)) (map (demand_row d ?vq) (sCustomers d))
            = map (\<lambda>c. map ?vq (customer_routes d c)) (sCustomers d)"
    unfolding map_map comp_def
  proof (rule map_cong [OF refl])
    fix c assume "c \<in> set (sCustomers d)"
    then have "set (customer_routes d c) \<subseteq> dom ?vq"
      using customer_routes_subset [of c d] by (simp add: model_variables_dom)
    then have "map Some (map (the \<circ> ?vq) (customer_routes d c)) = map ?vq (customer_routes d c)"
      by (rule map_Some_the)
    then show "map Some (c_terms (demand_row d ?vq c)) = map ?vq (customer_routes d c)"
      by (simp only: demand_row_terms)
  qed
  have "\<And>k. k \<in> set (fixed_pairs d) \<Longrightarrow> Some (the (?vq k)) = ?vq k"
    using fixed_pairs_subset [of d] Some_the_variable [of _ d] by blast
  then have f: "map (\<lambda>r. map Some (c_terms r)) (map (fixed_row d ?vq) (fixed_pairs d))
            = map (\<lambda>k. [?vq k]) (fixed_pairs d)"
    by (simp add: fixed_row_eq)
  show ?thesis
    unfolding built_solver_constraints map_append p c f ..
qed

subsection \<open>The variables and the keys of the cost map\<close>

lemma dom_costs_routes: "dom (dict_of (pTransportationCosts d)) = set (sSources_Customers d)"
  by (simp add: dom_dict_of sSources_Customers_def)

lemma set_route_pairs_costs:
  "set (route_pairs d) =
     dom (dict_of (pTransportationCosts d)) \<inter> (set (sSources d) \<times> set (sCustomers d))"
  by (auto simp add: set_route_pairs dom_costs_routes)

lemma model_variables_nth:
  assumes "snd (model_variables d) k = Some i"
  shows "i < length (variables (fst (model_variables d))) \<and>
         variables (fst (model_variables d)) ! i = quantity_variable k"
  using model_variables_index [OF assms] by (simp add: model_variables_solver)

text \<open>
  C1 (as amended).  The keys of \<open>vQuantityExchanged\<close> are exactly the keys of the cost
  map whose source is in \<open>sSources\<close> and whose customer is in \<open>sCustomers\<close>; the
  solver holds one variable for each pair visited, and the variable of a key has the name
  built from its source and customer, the lower bound 0 and no upper bound.  When every
  key of the cost map has its source and its customer listed, the key set of
  \<open>vQuantityExchanged\<close> is the key set of the cost map.
\<close>

theorem variables_are_listed_cost_keys:
  "dom (snd (model_variables d)) =
     dom (dict_of (pTransportationCosts d)) \<inter> (set (sSources d) \<times> set (sCustomers d)) \<and>
   variables (fst (model_variables d)) =
     map (\<lambda>(s, c). \<lparr>v_name = quantity_name s c, v_lb = Fin 0, v_ub = PosInf\<rparr>) (route_pairs d) \<and>
   set (route_pairs d) =
     dom (dict_of (pTransportationCosts d)) \<inter> (set (sSources d) \<times> set (sCustomers d)) \<and>
   (\<forall>s c i. snd (model_variables d) (s, c) = Some i \<longrightarrow>
      i < length (variables (fst (model_variables d))) \<and>
      variables (fst (model_variables d)) ! i =
        \<lparr>v_name = quantity_name s c, v_lb = Fin 0, v_ub = PosInf\<rparr>) \<and>
   (dom (dict_of (pTransportationCosts d)) \<subseteq> set (sSources d) \<times> set (sCustomers d) \<longrightarrow>
      dom (snd (model_variables d)) = dom (dict_of (pTransportationCosts d)))"
proof -
  have 1: "dom (snd (model_variables d)) =
     dom (dict_of (pTransportationCosts d)) \<inter> (set (sSources d) \<times> set (sCustomers d))"
    by (simp add: model_variables_dom set_route_pairs_costs)
  have 2: "variables (fst (model_variables d)) =
     map (\<lambda>(s, c). \<lparr>v_name = quantity_name s c, v_lb = Fin 0, v_ub = PosInf\<rparr>) (route_pairs d)"
    by (simp add: model_variables_solver quantity_variable_def [abs_def] case_prod_beta)
  have 4: "\<forall>s c i. snd (model_variables d) (s, c) = Some i \<longrightarrow>
      i < length (variables (fst (model_variables d))) \<and>
      variables (fst (model_variables d)) ! i =
        \<lparr>v_name = quantity_name s c, v_lb = Fin 0, v_ub = PosInf\<rparr>"
    using model_variables_nth [of d] by (simp add: quantity_variable_def)
  have 5: "dom (dict_of (pTransportationCosts d)) \<subseteq> set (sSources d) \<times> set (sCustomers d) \<longrightarrow>
      dom (snd (model_variables d)) = dom (dict_of (pTransportationCosts d))"
    using 1 by blast
  from 1 2 4 5 show ?thesis
    using set_route_pairs_costs [of d] by blast
qed

lemmas sample_eval = sample_data_def sample_costs_def model_variables_def route_pairs_def
  sSources_Customers_def CreateSolver_def NumVar_def quantity_name_def dict_of_def

theorem variables_are_listed_cost_keys_witness:
  "snd (model_variables sample_data) (''Arn'', ''Ber'') = Some 1 \<and>
   1 < length (variables (fst (model_variables sample_data))) \<and>
   variables (fst (model_variables sample_data)) ! 1 =
     \<lparr>v_name = ''quantity_in_tons_Arn_Ber'', v_lb = Fin 0, v_ub = PosInf\<rparr> \<and>
   dom (dict_of (pTransportationCosts sample_data))
     \<subseteq> set (sSources sample_data) \<times> set (sCustomers sample_data) \<and>
   dom (snd (model_variables sample_data)) = dom (dict_of (pTransportationCosts sample_data))"
proof -
  have a: "snd (model_variables sample_data) (''Arn'', ''Ber'') = Some 1"
    by (simp add: sample_eval)
  have b: "dom (dict_of (pTransportationCosts sample_data))
     \<subseteq> set (sSources sample_data) \<times> set (sCustomers sample_data)"
    by (simp add: dom_dict_of sample_data_def sample_costs_def)
  note t = variables_are_listed_cost_keys [of sample_data]
  from t have n: "snd (model_variables sample_data) (''Arn'', ''Ber'') = Some 1 \<longrightarrow>
      1 < length (variables (fst (model_variables sample_data))) \<and>
      variables (fst (model_variables sample_data)) ! 1 =
        \<lparr>v_name = quantity_name ''Arn'' ''Ber'', v_lb = Fin 0, v_ub = PosInf\<rparr>"
    by blast
  from t have e: "dom (dict_of (pTransportationCosts sample_data))
       \<subseteq> set (sSources sample_data) \<times> set (sCustomers sample_data) \<longrightarrow>
     dom (snd (model_variables sample_data)) = dom (dict_of (pTransportationCosts sample_data))"
    by blast
  from a b n e show ?thesis
    by (simp add: quantity_name_def)
qed

text \<open>
  C1 as stated fails when a key of the cost map names a source that is not listed: the
  route from Gou to Ams has a cost and no variable.
\<close>

theorem variables_are_listed_cost_keys_counterexample:
  "(''Gou'', ''Ams'') \<in> dom (dict_of (pTransportationCosts unlisted_source_data)) \<and>
   (''Gou'', ''Ams'') \<notin> dom (snd (model_variables unlisted_source_data)) \<and>
   map v_name (variables (fst (model_variables unlisted_source_data))) = [''quantity_in_tons_Arn_Ams'']"
  by (simp add: unlisted_source_data_def model_variables_def route_pairs_def
      sSources_Customers_def CreateSolver_def NumVar_def quantity_name_def dict_of_def dom_def)

subsection \<open>Missing keys, and routes that are not fixed\<close>

lemma build_model_KeyError: "\<not> keys_present d \<Longrightarrow> build_model d = Inl KeyError"
  by (simp add: build_model_closed)

lemma built_row_cases:
  assumes "r \<in> set (constraints (built_solver d))"
  shows "(\<exists>s. r = production_row d (snd (model_variables d)) s) \<or>
         (\<exists>c. r = demand_row d (snd (model_variables d)) c) \<or>
         (\<exists>k \<in> set (fixed_pairs d). r = fixed_row d (snd (model_variables d)) k)"
  using assms by (auto simp add: built_solver_constraints)

lemma no_fixed_row_for_unfixed:
  assumes "\<not> is_fixed d k"
    and "r \<in> set (constraints (built_solver d))"
    and "constraint_number (c_name r) = Inr 3"
  shows "map Some (c_terms r) \<noteq> [snd (model_variables d) k]"
proof
  let ?vq = "snd (model_variables d)"
  assume eq: "map Some (c_terms r) = [?vq k]"
  from built_row_cases [OF assms(2)] show False
  proof (elim disjE exE bexE)
    fix s assume "r = production_row d ?vq s"
    with assms(3) show False
      by (simp add: production_row_name constraint_number_production)
  next
    fix c assume "r = demand_row d ?vq c"
    with assms(3) show False
      by (simp add: demand_row_name constraint_number_demand)
  next
    fix k' assume k': "k' \<in> set (fixed_pairs d)" and r: "r = fixed_row d ?vq k'"
    from k' have rp: "k' \<in> set (route_pairs d)" and fx: "is_fixed d k'"
      by (simp_all add: set_fixed_pairs)
    from rp obtain v where v: "?vq k' = Some v"
      using model_variables_dom [of d] by blast
    from eq r v have "?vq k = Some v"
      by (simp add: fixed_row_eq)
    with v have "k = k'"
      using model_variables_inj [of d k v k'] by simp
    with fx assms(1) show False by simp
  qed
qed

text \<open>
  C3 (as amended).  The model is built without an exception exactly when every listed
  source has a production, every listed customer a demand, and every pair visited (a key
  of the cost map with its source and customer listed) an entry in
  \<open>pFixedTransportation\<close>; otherwise \<open>KeyError\<close> is raised, in particular when
  the entry of a pair visited is absent.  When the model is built and the entry of a
  route is zero, no constraint numbered 3 is on that route's variable alone.
\<close>

theorem fixed_lookup_needs_entry:
  "((\<exists>m. build_model d = Inr m) \<longleftrightarrow> keys_present d) \<and>
   (\<not> keys_present d \<longrightarrow> build_model d = Inl KeyError) \<and>
   (k \<in> set (route_pairs d) \<and> dict_of (pFixedTransportation d) k = None \<longrightarrow>
      build_model d = Inl KeyError) \<and>
   (build_model d = Inr m \<and> dict_of (pFixedTransportation d) k = Some 0 \<longrightarrow>
      \<not> (\<exists>r \<in> set (constraints (m_solver m)).
            constraint_number (c_name r) = Inr 3 \<and>
            map Some (c_terms r) = [vQuantityExchanged m k]))"
proof -
  have 1: "(\<exists>m. build_model d = Inr m) \<longleftrightarrow> keys_present d"
    by (simp add: build_model_closed)
  have 2: "\<not> keys_present d \<longrightarrow> build_model d = Inl KeyError"
    by (simp add: build_model_closed)
  have 3: "k \<in> set (route_pairs d) \<and> dict_of (pFixedTransportation d) k = None \<longrightarrow>
      build_model d = Inl KeyError"
  proof
    assume "k \<in> set (route_pairs d) \<and> dict_of (pFixedTransportation d) k = None"
    then have "\<not> keys_present d"
      unfolding keys_present_def by blast
    then show "build_model d = Inl KeyError"
      by (rule build_model_KeyError)
  qed
  have 4: "build_model d = Inr m \<and> dict_of (pFixedTransportation d) k = Some 0 \<longrightarrow>
      \<not> (\<exists>r \<in> set (constraints (m_solver m)).
            constraint_number (c_name r) = Inr 3 \<and>
            map Some (c_terms r) = [vQuantityExchanged m k])"
  proof
    assume h: "build_model d = Inr m \<and> dict_of (pFixedTransportation d) k = Some 0"
    then have nf: "\<not> is_fixed d k"
      by (simp add: is_fixed_def)
    from h have m: "m_solver m = built_solver d" "vQuantityExchanged m = snd (model_variables d)"
      using build_model_Inr [of d m] by simp_all
    show "\<not> (\<exists>r \<in> set (constraints (m_solver m)).
            constraint_number (c_name r) = Inr 3 \<and>
            map Some (c_terms r) = [vQuantityExchanged m k])"
      unfolding m using no_fixed_row_for_unfixed [OF nf] by auto
  qed
  from 1 2 3 4 show ?thesis by blast
qed

lemma build_model_built: "build_model d = (if keys_present d then Inr (built_model d) else Inl KeyError)"
  by (simp add: build_model_closed built_model_def)

lemmas build_eval = build_model_def model_variables_def route_pairs_def
  sSources_Customers_def CreateSolver_def NumVar_def quantity_name_def dict_of_def
  production_name_def demand_name_def fixed_name_def Add_def sum_le_def sum_ge_def var_eq_def
  RowConstraint_def Minimize_def

lemma keys_present_sample: "keys_present sample_data"
  by (simp add: keys_present_def sample_data_def sample_costs_def route_pairs_def
      sSources_Customers_def dict_of_def)

text \<open>Running the builder on the sample data gives the sample model.\<close>

lemma build_model_sample: "build_model sample_data = Inr sample_model"
  by (simp add: build_eval sample_data_def sample_costs_def sample_model_def sample_solver_def
      numeral_2_eq_2 numeral_3_eq_3)

lemma sample_model_solver: "m_solver sample_model = sample_solver"
  by (simp add: sample_model_def)

text \<open>
  C3 as stated fails when the entry is absent: with the sample's costs and no fixed
  quantities at all, the lookup for the route from Arn to Ams raises \<open>KeyError\<close>.
\<close>

theorem fixed_lookup_needs_entry_counterexample:
  "(''Arn'', ''Ams'') \<in> set (sSources_Customers no_fixed_data) \<and>
   dict_of (pFixedTransportation no_fixed_data) (''Arn'', ''Ams'') = None \<and>
   build_model no_fixed_data = Inl KeyError"
  by (simp add: build_eval no_fixed_data_def sample_data_def sample_costs_def)

theorem fixed_lookup_needs_entry_witness:
  "keys_present sample_data \<and>
   build_model sample_data = Inr sample_model \<and>
   dict_of (pFixedTransportation sample_data) (''Arn'', ''Ber'') = Some 0 \<and>
   \<not> (\<exists>r \<in> set (constraints (m_solver sample_model)).
         constraint_number (c_name r) = Inr 3 \<and>
         map Some (c_terms r) = [vQuantityExchanged sample_model (''Arn'', ''Ber'')]) \<and>
   (''Arn'', ''Ams'') \<in> set (route_pairs no_fixed_data) \<and>
   dict_of (pFixedTransportation no_fixed_data) (''Arn'', ''Ams'') = None \<and>
   \<not> keys_present no_fixed_data \<and>
   build_model no_fixed_data = Inl KeyError"
proof -
  have b: "build_model sample_data = Inr sample_model"
    by (rule build_model_sample)
  have z: "dict_of (pFixedTransportation sample_data) (''Arn'', ''Ber'') = Some 0"
    by (simp add: dict_of_def sample_data_def)
  have r: "(''Arn'', ''Ams'') \<in> set (route_pairs no_fixed_data)"
    by (simp add: no_fixed_data_def sample_data_def sample_costs_def route_pairs_def
        sSources_Customers_def)
  have n: "dict_of (pFixedTransportation no_fixed_data) (''Arn'', ''Ams'') = None"
    by (simp add: dict_of_def no_fixed_data_def)
  from r n have nk: "\<not> keys_present no_fixed_data"
    unfolding keys_present_def by blast
  note t1 = fixed_lookup_needs_entry [of sample_data "(''Arn'', ''Ber'')" "sample_model"]
  note t2 = fixed_lookup_needs_entry [of no_fixed_data "(''Arn'', ''Ams'')"]
  from t1 [THEN conjunct2, THEN conjunct2, THEN conjunct2, THEN mp, OF conjI [OF b z]]
  have 1: "\<not> (\<exists>r \<in> set (constraints (m_solver sample_model)).
         constraint_number (c_name r) = Inr 3 \<and>
         map Some (c_terms r) = [vQuantityExchanged sample_model (''Arn'', ''Ber'')])" .
  from t2 [THEN conjunct2, THEN conjunct2, THEN conjunct1, THEN mp, OF conjI [OF r n]]
  have 2: "build_model no_fixed_data = Inl KeyError" .
  from keys_present_sample b z 1 r n nk 2 show ?thesis by (intro conjI)
qed

subsection \<open>Fixed quantities\<close>

lemma satisfies_equality:
  assumes "satisfies x \<lparr>c_name = n, c_lb = Fin q, c_ub = Fin q, c_terms = [v]\<rparr>"
  shows "x v = q"
  using assms by (simp add: satisfies_def lhs_value_def)

text \<open>
  C9.  When the model is built, a route of the cost map with listed source and customer
  whose fixed quantity \<open>q\<close> is present and not zero has a variable \<open>v\<close>, and the
  solver holds the constraint \<open>q \<le> v \<le> q\<close> named \<open>c03_fixed_s_c\<close> on that variable
  alone; so every assignment that satisfies all the constraints gives \<open>v\<close> the value
  \<open>q\<close>.
\<close>

theorem fixed_quantity_is_pinned:
  assumes "build_model d = Inr m"
    and "s \<in> set (sSources d)" and "c \<in> set (sCustomers d)"
    and "(s, c) \<in> set (sSources_Customers d)"
    and "dict_of (pFixedTransportation d) (s, c) = Some q" and "q \<noteq> 0"
  shows "\<exists>v. vQuantityExchanged m (s, c) = Some v \<and>
           v < length (variables (m_solver m)) \<and>
           variables (m_solver m) ! v = \<lparr>v_name = quantity_name s c, v_lb = Fin 0, v_ub = PosInf\<rparr> \<and>
           \<lparr>c_name = fixed_name s c, c_lb = Fin q, c_ub = Fin q, c_terms = [v]\<rparr>
             \<in> set (constraints (m_solver m)) \<and>
           (\<forall>x. (\<forall>r \<in> set (constraints (m_solver m)). satisfies x r) \<longrightarrow> x v = q)"
proof -
  let ?vq = "snd (model_variables d)"
  let ?row = "\<lambda>v. \<lparr>c_name = fixed_name s c, c_lb = Fin q, c_ub = Fin q, c_terms = [v]\<rparr>"
  from assms(1) have m: "m_solver m = built_solver d" "vQuantityExchanged m = ?vq"
    using build_model_Inr [of d m] by simp_all
  from assms(2-4) have rp: "(s, c) \<in> set (route_pairs d)"
    by (simp add: set_route_pairs)
  then obtain v where v: "?vq (s, c) = Some v"
    using model_variables_dom [of d] by blast
  from assms(5,6) have "is_fixed d (s, c)"
    by (simp add: is_fixed_def)
  with rp have fp: "(s, c) \<in> set (fixed_pairs d)"
    by (simp add: set_fixed_pairs)
  have "fixed_row d ?vq (s, c) = ?row v"
    by (simp add: fixed_row_eq v assms(5))
  with fp have mem: "?row v \<in> set (constraints (built_solver d))"
    unfolding built_solver_constraints by force
  have pin: "\<forall>x. (\<forall>r \<in> set (constraints (built_solver d)). satisfies x r) \<longrightarrow> x v = q"
    using mem satisfies_equality by blast
  from model_variables_nth [OF v]
  have var: "v < length (variables (built_solver d)) \<and>
      variables (built_solver d) ! v = \<lparr>v_name = quantity_name s c, v_lb = Fin 0, v_ub = PosInf\<rparr>"
    by (simp add: built_solver_variables model_variables_solver quantity_variable_def)
  from v var mem pin show ?thesis
    unfolding m by blast
qed

theorem fixed_quantity_is_pinned_witness:
  "build_model sample_data = Inr sample_model \<and>
   ''Arn'' \<in> set (sSources sample_data) \<and> ''Ams'' \<in> set (sCustomers sample_data) \<and>
   (''Arn'', ''Ams'') \<in> set (sSources_Customers sample_data) \<and>
   dict_of (pFixedTransportation sample_data) (''Arn'', ''Ams'') = Some 1 \<and> (1::real) \<noteq> 0 \<and>
   (\<exists>v. vQuantityExchanged sample_model (''Arn'', ''Ams'') = Some v \<and>
      v < length (variables (m_solver sample_model)) \<and>
      variables (m_solver sample_model) ! v =
        \<lparr>v_name = quantity_name ''Arn'' ''Ams'', v_lb = Fin 0, v_ub = PosInf\<rparr> \<and>
      \<lparr>c_name = fixed_name ''Arn'' ''Ams'', c_lb = Fin 1, c_ub = Fin 1, c_terms = [v]\<rparr>
        \<in> set (constraints (m_solver sample_model)) \<and>
      (\<forall>x. (\<forall>r \<in> set (constraints (m_solver sample_model)). satisfies x r)
         \<longrightarrow> x v = 1)) \<and>
   vQuantityExchanged sample_model (''Arn'', ''Ams'') = Some 0 \<and>
   list_all (satisfies sample_flow) (constraints (m_solver sample_model)) \<and>
   sample_flow 0 = 1"
proof -
  have b: "build_model sample_data = Inr sample_model"
    by (rule build_model_sample)
  have s: "''Arn'' \<in> set (sSources sample_data)"
    by (simp add: sample_data_def)
  have c: "''Ams'' \<in> set (sCustomers sample_data)"
    by (simp add: sample_data_def)
  have r: "(''Arn'', ''Ams'') \<in> set (sSources_Customers sample_data)"
    by (simp add: sample_data_def sample_costs_def sSources_Customers_def)
  have q: "dict_of (pFixedTransportation sample_data) (''Arn'', ''Ams'') = Some 1"
    by (simp add: dict_of_def sample_data_def)
  have n: "(1::real) \<noteq> 0"
    by simp
  note t = fixed_quantity_is_pinned [OF b s c r q n]
  have v: "vQuantityExchanged sample_model (''Arn'', ''Ams'') = Some 0"
    by (simp add: sample_model_def)
  have f: "list_all (satisfies sample_flow) (constraints (m_solver sample_model))"
    unfolding sample_model_solver
    by (simp add: sample_solver_def satisfies_def lhs_value_def sample_flow_def)
  have x: "sample_flow 0 = 1"
    by (simp add: sample_flow_def)
  from b s c r q n t v f x show ?thesis
    by (intro conjI)
qed

subsection \<open>The constraints of a built model\<close>

lemma built_numbers:
  "map (\<lambda>r. constraint_number (c_name r)) (constraints (built_solver d)) =
     replicate (length (sSources d)) (Inr 1) @ replicate (length (sCustomers d)) (Inr 2) @
     replicate (length (fixed_pairs d)) (Inr 3)"
  by (simp add: built_solver_constraints production_row_name demand_row_name fixed_row_name
      constraint_number_production constraint_number_demand constraint_number_fixed
      comp_def map_replicate_const)

lemma set_fixed_pairs_entries:
  "set (fixed_pairs d) =
     {(s, c). s \<in> set (sSources d) \<and> c \<in> set (sCustomers d) \<and>
        (s, c) \<in> set (sSources_Customers d) \<and>
        (\<exists>q. dict_of (pFixedTransportation d) (s, c) = Some q \<and> q \<noteq> 0)}"
  by (auto simp add: set_fixed_pairs set_route_pairs is_fixed_def split: option.splits)

lemma built_production_nth:
  "i < length (sSources d) \<Longrightarrow>
     constraints (built_solver d) ! i = production_row d (snd (model_variables d)) (sSources d ! i)"
  by (simp add: built_solver_constraints nth_append)

lemma built_demand_nth:
  "j < length (sCustomers d) \<Longrightarrow>
     constraints (built_solver d) ! (length (sSources d) + j) =
       demand_row d (snd (model_variables d)) (sCustomers d ! j)"
  by (simp add: built_solver_constraints nth_append)

lemma source_routes_Nil:
  "source_routes d s = [] \<longleftrightarrow> (\<forall>c \<in> set (sCustomers d). (s, c) \<notin> set (sSources_Customers d))"
  by (auto simp add: source_routes_def)

lemma production_row_bounds:
  assumes "source_routes d s \<noteq> []" and "pSourceProduction d s = Some b"
  shows "c_lb (production_row d vq s) = NegInf \<and> c_ub (production_row d vq s) = Fin b"
  using assms by (simp add: production_row_def row_of_def sum_le_def)

lemma demand_row_bounds:
  assumes "customer_routes d c \<noteq> []" and "pCustomerDemand d c = Some b"
  shows "c_lb (demand_row d vq c) = Fin b \<and> c_ub (demand_row d vq c) = PosInf"
  using assms by (simp add: demand_row_def row_of_def sum_ge_def)

lemma customer_routes_Nil:
  "customer_routes d c = [] \<longleftrightarrow> (\<forall>s \<in> set (sSources d). (s, c) \<notin> set (sSources_Customers d))"
  by (auto simp add: customer_routes_def)

lemma built_fixed_nth:
  "i < length (fixed_pairs d) \<Longrightarrow>
     constraints (built_solver d) ! (length (sSources d) + length (sCustomers d) + i) =
       fixed_row d (snd (model_variables d)) (fixed_pairs d ! i)"
  by (simp add: built_solver_constraints nth_append)

lemma production_row_vacuous:
  assumes "source_routes d s = []" and "pSourceProduction d s = Some b"
  shows "satisfies x (production_row d vq s) \<longleftrightarrow> 0 \<le> b"
  using assms by (simp add: production_row_def row_of_def sum_le_def satisfies_def lhs_value_def)

lemma production_row_vacuous_bounds:
  assumes "source_routes d s = []" and "pSourceProduction d s = Some b"
  shows "c_lb (production_row d vq s) = Fin (if 0 \<le> b then 0 else 1) \<and>
         c_ub (production_row d vq s) = Fin (if 0 \<le> b then 0 else 1)"
  using assms by (simp add: production_row_def row_of_def sum_le_def)

lemma demand_row_vacuous:
  assumes "customer_routes d c = []" and "pCustomerDemand d c = Some b"
  shows "satisfies x (demand_row d vq c) \<longleftrightarrow> b \<le> 0"
  using assms by (simp add: demand_row_def row_of_def sum_ge_def satisfies_def lhs_value_def)

lemma demand_row_vacuous_bounds:
  assumes "customer_routes d c = []" and "pCustomerDemand d c = Some b"
  shows "c_lb (demand_row d vq c) = Fin (if b \<le> 0 then 0 else 1) \<and>
         c_ub (demand_row d vq c) = Fin (if b \<le> 0 then 0 else 1)"
  using assms by (simp add: demand_row_def row_of_def sum_ge_def)

lemma fixed_pairs_nth_entry:
  assumes "i < length (fixed_pairs d)"
  shows "\<exists>q. dict_of (pFixedTransportation d) (fixed_pairs d ! i) = Some q \<and> q \<noteq> 0"
proof -
  from assms have "fixed_pairs d ! i \<in> set (fixed_pairs d)"
    by simp
  then have "is_fixed d (fixed_pairs d ! i)"
    by (simp add: set_fixed_pairs)
  then show ?thesis
    by (simp add: is_fixed_def split: option.splits)
qed

text \<open>
  C7.  When the model is built, its constraints are, in order: one named
  \<open>c01_production_s\<close> for each entry \<open>s\<close> of \<open>sSources\<close>, one named \<open>c02_demand_c\<close>
  for each entry \<open>c\<close> of \<open>sCustomers\<close>, and one named \<open>c03_fixed_s_c\<close> for each pair
  visited whose fixed quantity is present and not zero, and no other.  The first sum the
  variables of the routes out of the source, the second those of the routes into the
  customer, the third is on the route's variable alone.  The constraint of a source
  with a route has no lower bound and the production as upper bound; that of a customer
  with a route has the demand as lower bound and no upper bound; a fixed constraint has
  the fixed quantity as both bounds.  The constraint of a source with no route has no
  variable, its bounds are both 0 when the production is not negative and both 1
  otherwise, and it holds for every assignment exactly when the production is not
  negative; likewise the constraint of a customer with no route has no variable, bounds 0
  when the demand is not positive and 1 otherwise, and holds exactly when the demand is
  not positive.
\<close>

theorem one_constraint_per_source_and_customer:
  assumes "build_model d = Inr m"
  shows
    "map c_name (constraints (m_solver m)) =
       map production_name (sSources d) @ map demand_name (sCustomers d) @
       map (\<lambda>(s, c). fixed_name s c) (fixed_pairs d) \<and>
     map (\<lambda>r. constraint_number (c_name r)) (constraints (m_solver m)) =
       replicate (length (sSources d)) (Inr 1) @ replicate (length (sCustomers d)) (Inr 2) @
       replicate (length (fixed_pairs d)) (Inr 3) \<and>
     map (\<lambda>r. map Some (c_terms r)) (constraints (m_solver m)) =
       map (\<lambda>s. map (vQuantityExchanged m) (source_routes d s)) (sSources d) @
       map (\<lambda>c. map (vQuantityExchanged m) (customer_routes d c)) (sCustomers d) @
       map (\<lambda>k. [vQuantityExchanged m k]) (fixed_pairs d) \<and>
     set (fixed_pairs d) =
       {(s, c). s \<in> set (sSources d) \<and> c \<in> set (sCustomers d) \<and>
          (s, c) \<in> set (sSources_Customers d) \<and>
          (\<exists>q. dict_of (pFixedTransportation d) (s, c) = Some q \<and> q \<noteq> 0)} \<and>
     (\<forall>i < length (sSources d).
        (\<forall>c \<in> set (sCustomers d). (sSources d ! i, c) \<notin> set (sSources_Customers d)) \<longrightarrow>
        c_name (constraints (m_solver m) ! i) = production_name (sSources d ! i) \<and>
        c_terms (constraints (m_solver m) ! i) = [] \<and>
        (\<exists>b. pSourceProduction d (sSources d ! i) = Some b \<and>
           c_lb (constraints (m_solver m) ! i) = Fin (if 0 \<le> b then 0 else 1) \<and>
           c_ub (constraints (m_solver m) ! i) = Fin (if 0 \<le> b then 0 else 1) \<and>
           (\<forall>x. satisfies x (constraints (m_solver m) ! i) \<longleftrightarrow> 0 \<le> b))) \<and>
     (\<forall>i < length (sSources d). source_routes d (sSources d ! i) \<noteq> [] \<longrightarrow>
        c_lb (constraints (m_solver m) ! i) = NegInf \<and>
        (\<exists>b. pSourceProduction d (sSources d ! i) = Some b \<and>
           c_ub (constraints (m_solver m) ! i) = Fin b)) \<and>
     (\<forall>j < length (sCustomers d).
        (\<forall>s \<in> set (sSources d). (s, sCustomers d ! j) \<notin> set (sSources_Customers d)) \<longrightarrow>
        c_name (constraints (m_solver m) ! (length (sSources d) + j)) = demand_name (sCustomers d ! j) \<and>
        c_terms (constraints (m_solver m) ! (length (sSources d) + j)) = [] \<and>
        (\<exists>b. pCustomerDemand d (sCustomers d ! j) = Some b \<and>
           c_lb (constraints (m_solver m) ! (length (sSources d) + j)) = Fin (if b \<le> 0 then 0 else 1) \<and>
           c_ub (constraints (m_solver m) ! (length (sSources d) + j)) = Fin (if b \<le> 0 then 0 else 1) \<and>
           (\<forall>x. satisfies x (constraints (m_solver m) ! (length (sSources d) + j)) \<longleftrightarrow> b \<le> 0))) \<and>
     (\<forall>j < length (sCustomers d). customer_routes d (sCustomers d ! j) \<noteq> [] \<longrightarrow>
        c_ub (constraints (m_solver m) ! (length (sSources d) + j)) = PosInf \<and>
        (\<exists>b. pCustomerDemand d (sCustomers d ! j) = Some b \<and>
           c_lb (constraints (m_solver m) ! (length (sSources d) + j)) = Fin b)) \<and>
     (\<forall>i < length (fixed_pairs d).
        \<exists>q. dict_of (pFixedTransportation d) (fixed_pairs d ! i) = Some q \<and> q \<noteq> 0 \<and>
          c_lb (constraints (m_solver m) ! (length (sSources d) + length (sCustomers d) + i)) = Fin q \<and>
          c_ub (constraints (m_solver m) ! (length (sSources d) + length (sCustomers d) + i)) = Fin q)"
proof -
  let ?vq = "snd (model_variables d)"
  let ?cs = "constraints (built_solver d)"
  from assms have m: "m_solver m = built_solver d" "vQuantityExchanged m = ?vq"
    and kp: "keys_present d"
    using build_model_Inr [of d m] by simp_all
  have prod: "\<And>i. i < length (sSources d) \<Longrightarrow> \<exists>b. pSourceProduction d (sSources d ! i) = Some b"
    using kp unfolding keys_present_def by (meson nth_mem not_Some_eq)
  have dem: "\<And>j. j < length (sCustomers d) \<Longrightarrow> \<exists>b. pCustomerDemand d (sCustomers d ! j) = Some b"
    using kp unfolding keys_present_def by (meson nth_mem not_Some_eq)
  have v: "\<forall>i < length (sSources d).
        (\<forall>c \<in> set (sCustomers d). (sSources d ! i, c) \<notin> set (sSources_Customers d)) \<longrightarrow>
        c_name (?cs ! i) = production_name (sSources d ! i) \<and>
        c_terms (?cs ! i) = [] \<and>
        (\<exists>b. pSourceProduction d (sSources d ! i) = Some b \<and>
           c_lb (?cs ! i) = Fin (if 0 \<le> b then 0 else 1) \<and>
           c_ub (?cs ! i) = Fin (if 0 \<le> b then 0 else 1) \<and>
           (\<forall>x. satisfies x (?cs ! i) \<longleftrightarrow> 0 \<le> b))"
  proof (intro allI impI)
    fix i assume i: "i < length (sSources d)"
      and "\<forall>c \<in> set (sCustomers d). (sSources d ! i, c) \<notin> set (sSources_Customers d)"
    then have e: "source_routes d (sSources d ! i) = []"
      by (simp add: source_routes_Nil)
    from prod [OF i] obtain b where b: "pSourceProduction d (sSources d ! i) = Some b" ..
    have row: "?cs ! i = production_row d ?vq (sSources d ! i)"
      using i by (rule built_production_nth)
    have s: "\<forall>x. satisfies x (production_row d ?vq (sSources d ! i)) \<longleftrightarrow> 0 \<le> b"
      by (simp add: production_row_vacuous [OF e b])
    note bd = production_row_vacuous_bounds [OF e b, of ?vq]
    have n: "c_name (production_row d ?vq (sSources d ! i)) = production_name (sSources d ! i)"
      by (rule production_row_name)
    have t: "c_terms (production_row d ?vq (sSources d ! i)) = []"
      by (simp add: production_row_terms e)
    from b bd s n t
    show "c_name (?cs ! i) = production_name (sSources d ! i) \<and>
        c_terms (?cs ! i) = [] \<and>
        (\<exists>b. pSourceProduction d (sSources d ! i) = Some b \<and>
           c_lb (?cs ! i) = Fin (if 0 \<le> b then 0 else 1) \<and>
           c_ub (?cs ! i) = Fin (if 0 \<le> b then 0 else 1) \<and>
           (\<forall>x. satisfies x (?cs ! i) \<longleftrightarrow> 0 \<le> b))"
      unfolding row by blast
  qed
  have p: "\<forall>i < length (sSources d). source_routes d (sSources d ! i) \<noteq> [] \<longrightarrow>
        c_lb (?cs ! i) = NegInf \<and>
        (\<exists>b. pSourceProduction d (sSources d ! i) = Some b \<and> c_ub (?cs ! i) = Fin b)"
  proof (intro allI impI)
    fix i assume i: "i < length (sSources d)" and ne: "source_routes d (sSources d ! i) \<noteq> []"
    from prod [OF i] obtain b where b: "pSourceProduction d (sSources d ! i) = Some b" ..
    from production_row_bounds [OF ne b, of ?vq] b i
    show "c_lb (?cs ! i) = NegInf \<and>
        (\<exists>b. pSourceProduction d (sSources d ! i) = Some b \<and> c_ub (?cs ! i) = Fin b)"
      by (simp add: built_production_nth)
  qed
  have w: "\<forall>j < length (sCustomers d).
        (\<forall>s \<in> set (sSources d). (s, sCustomers d ! j) \<notin> set (sSources_Customers d)) \<longrightarrow>
        c_name (?cs ! (length (sSources d) + j)) = demand_name (sCustomers d ! j) \<and>
        c_terms (?cs ! (length (sSources d) + j)) = [] \<and>
        (\<exists>b. pCustomerDemand d (sCustomers d ! j) = Some b \<and>
           c_lb (?cs ! (length (sSources d) + j)) = Fin (if b \<le> 0 then 0 else 1) \<and>
           c_ub (?cs ! (length (sSources d) + j)) = Fin (if b \<le> 0 then 0 else 1) \<and>
           (\<forall>x. satisfies x (?cs ! (length (sSources d) + j)) \<longleftrightarrow> b \<le> 0))"
  proof (intro allI impI)
    fix j assume j: "j < length (sCustomers d)"
      and "\<forall>s \<in> set (sSources d). (s, sCustomers d ! j) \<notin> set (sSources_Customers d)"
    then have e: "customer_routes d (sCustomers d ! j) = []"
      by (simp add: customer_routes_Nil)
    from dem [OF j] obtain b where b: "pCustomerDemand d (sCustomers d ! j) = Some b" ..
    have row: "?cs ! (length (sSources d) + j) = demand_row d ?vq (sCustomers d ! j)"
      using j by (rule built_demand_nth)
    have s: "\<forall>x. satisfies x (demand_row d ?vq (sCustomers d ! j)) \<longleftrightarrow> b \<le> 0"
      by (simp add: demand_row_vacuous [OF e b])
    note bd = demand_row_vacuous_bounds [OF e b, of ?vq]
    have n: "c_name (demand_row d ?vq (sCustomers d ! j)) = demand_name (sCustomers d ! j)"
      by (rule demand_row_name)
    have t: "c_terms (demand_row d ?vq (sCustomers d ! j)) = []"
      by (simp add: demand_row_terms e)
    from b bd s n t
    show "c_name (?cs ! (length (sSources d) + j)) = demand_name (sCustomers d ! j) \<and>
        c_terms (?cs ! (length (sSources d) + j)) = [] \<and>
        (\<exists>b. pCustomerDemand d (sCustomers d ! j) = Some b \<and>
           c_lb (?cs ! (length (sSources d) + j)) = Fin (if b \<le> 0 then 0 else 1) \<and>
           c_ub (?cs ! (length (sSources d) + j)) = Fin (if b \<le> 0 then 0 else 1) \<and>
           (\<forall>x. satisfies x (?cs ! (length (sSources d) + j)) \<longleftrightarrow> b \<le> 0))"
      unfolding row by blast
  qed
  have q: "\<forall>j < length (sCustomers d). customer_routes d (sCustomers d ! j) \<noteq> [] \<longrightarrow>
        c_ub (?cs ! (length (sSources d) + j)) = PosInf \<and>
        (\<exists>b. pCustomerDemand d (sCustomers d ! j) = Some b \<and>
           c_lb (?cs ! (length (sSources d) + j)) = Fin b)"
  proof (intro allI impI)
    fix j assume j: "j < length (sCustomers d)" and ne: "customer_routes d (sCustomers d ! j) \<noteq> []"
    from dem [OF j] obtain b where b: "pCustomerDemand d (sCustomers d ! j) = Some b" ..
    from demand_row_bounds [OF ne b, of ?vq] b j
    show "c_ub (?cs ! (length (sSources d) + j)) = PosInf \<and>
        (\<exists>b. pCustomerDemand d (sCustomers d ! j) = Some b \<and>
           c_lb (?cs ! (length (sSources d) + j)) = Fin b)"
      by (simp add: built_demand_nth)
  qed
  have f: "\<forall>i < length (fixed_pairs d).
        \<exists>q. dict_of (pFixedTransportation d) (fixed_pairs d ! i) = Some q \<and> q \<noteq> 0 \<and>
          c_lb (?cs ! (length (sSources d) + length (sCustomers d) + i)) = Fin q \<and>
          c_ub (?cs ! (length (sSources d) + length (sCustomers d) + i)) = Fin q"
  proof (intro allI impI)
    fix i assume i: "i < length (fixed_pairs d)"
    from fixed_pairs_nth_entry [OF i] obtain q0
      where q0: "dict_of (pFixedTransportation d) (fixed_pairs d ! i) = Some q0" "q0 \<noteq> 0"
      by blast
    have row: "?cs ! (length (sSources d) + length (sCustomers d) + i) =
        fixed_row d ?vq (fixed_pairs d ! i)"
      using i by (rule built_fixed_nth)
    from q0
    show "\<exists>q. dict_of (pFixedTransportation d) (fixed_pairs d ! i) = Some q \<and> q \<noteq> 0 \<and>
          c_lb (?cs ! (length (sSources d) + length (sCustomers d) + i)) = Fin q \<and>
          c_ub (?cs ! (length (sSources d) + length (sCustomers d) + i)) = Fin q"
      unfolding row by (simp add: fixed_row_eq)
  qed
  show ?thesis
    unfolding m
    using built_names [of d] built_numbers [of d] built_terms [of d] set_fixed_pairs_entries [of d]
      v p w q f
    by (intro conjI)
qed

lemma keys_present_idle: "keys_present idle_source_data"
  by (simp add: keys_present_def idle_source_data_def sample_data_def sample_costs_def
      route_pairs_def sSources_Customers_def dict_of_def)

theorem one_constraint_per_source_and_customer_witness:
  "build_model idle_source_data = Inr (built_model idle_source_data) \<and>
   map c_name (constraints (m_solver (built_model idle_source_data))) =
     [''c01_production_Arn'', ''c01_production_Gou'', ''c01_production_Rot'',
      ''c02_demand_Ams'', ''c02_demand_Ber'', ''c02_demand_Lon'', ''c02_demand_Par'',
      ''c03_fixed_Arn_Ams''] \<and>
   map (\<lambda>r. constraint_number (c_name r)) (constraints (m_solver (built_model idle_source_data))) =
     [Inr 1, Inr 1, Inr 1, Inr 2, Inr 2, Inr 2, Inr 2, Inr 3] \<and>
   fixed_pairs idle_source_data = [(''Arn'', ''Ams'')] \<and>
   sSources idle_source_data ! 2 = ''Rot'' \<and>
   source_routes idle_source_data ''Rot'' = [] \<and>
   c_name (constraints (m_solver (built_model idle_source_data)) ! 2) = ''c01_production_Rot'' \<and>
   c_terms (constraints (m_solver (built_model idle_source_data)) ! 2) = [] \<and>
   pSourceProduction idle_source_data ''Rot'' = Some 100 \<and>
   c_lb (constraints (m_solver (built_model idle_source_data)) ! 2) = Fin 0 \<and>
   c_ub (constraints (m_solver (built_model idle_source_data)) ! 2) = Fin 0 \<and>
   satisfies sample_flow (constraints (m_solver (built_model idle_source_data)) ! 2) \<and>
   sCustomers idle_source_data ! 3 = ''Par'' \<and>
   customer_routes idle_source_data ''Par'' = [] \<and>
   c_name (constraints (m_solver (built_model idle_source_data)) ! 6) = ''c02_demand_Par'' \<and>
   c_terms (constraints (m_solver (built_model idle_source_data)) ! 6) = [] \<and>
   pCustomerDemand idle_source_data ''Par'' = Some 50 \<and>
   c_lb (constraints (m_solver (built_model idle_source_data)) ! 6) = Fin 1 \<and>
   c_ub (constraints (m_solver (built_model idle_source_data)) ! 6) = Fin 1 \<and>
   \<not> satisfies sample_flow (constraints (m_solver (built_model idle_source_data)) ! 6) \<and>
   c_lb (constraints (m_solver (built_model idle_source_data)) ! 0) = NegInf \<and>
   c_ub (constraints (m_solver (built_model idle_source_data)) ! 0) = Fin 550 \<and>
   c_lb (constraints (m_solver (built_model idle_source_data)) ! 3) = Fin 300 \<and>
   c_ub (constraints (m_solver (built_model idle_source_data)) ! 3) = PosInf \<and>
   c_lb (constraints (m_solver (built_model idle_source_data)) ! 7) = Fin 1 \<and>
   c_ub (constraints (m_solver (built_model idle_source_data)) ! 7) = Fin 1"
proof -
  let ?d = idle_source_data
  let ?cs = "constraints (m_solver (built_model idle_source_data))"
  have b: "build_model ?d = Inr (built_model ?d)"
    by (simp add: build_model_built keys_present_idle)
  note t = one_constraint_per_source_and_customer [OF b]
  have fp: "fixed_pairs ?d = [(''Arn'', ''Ams'')]"
    by (simp add: fixed_pairs_def is_fixed_def idle_source_data_def sample_data_def sample_costs_def
        sSources_Customers_def dict_of_def)
  have src: "sSources ?d = [''Arn'', ''Gou'', ''Rot'']"
    and cus: "sCustomers ?d = [''Ams'', ''Ber'', ''Lon'', ''Par'']"
    by (simp_all add: idle_source_data_def sample_data_def)
  have rot: "source_routes ?d ''Rot'' = []"
    by (simp add: source_routes_def idle_source_data_def sample_data_def sample_costs_def
        sSources_Customers_def)
  have par: "customer_routes ?d ''Par'' = []"
    by (simp add: customer_routes_def idle_source_data_def sample_data_def sample_costs_def
        sSources_Customers_def)
  have arn: "source_routes ?d ''Arn'' \<noteq> []"
    by (simp add: source_routes_def idle_source_data_def sample_data_def sample_costs_def
        sSources_Customers_def)
  have ams: "customer_routes ?d ''Ams'' \<noteq> []"
    by (simp add: customer_routes_def idle_source_data_def sample_data_def sample_costs_def
        sSources_Customers_def)
  have prod: "pSourceProduction ?d ''Arn'' = Some 550" and dem: "pCustomerDemand ?d ''Ams'' = Some 300"
    by (simp_all add: idle_source_data_def sample_data_def)
  have prot: "pSourceProduction ?d ''Rot'' = Some 100"
    by (simp add: idle_source_data_def)
  have dpar: "pCustomerDemand ?d ''Par'' = Some 50"
    by (simp add: idle_source_data_def)
  have fq: "dict_of (pFixedTransportation ?d) (''Arn'', ''Ams'') = Some 1"
    by (simp add: dict_of_def idle_source_data_def sample_data_def)
  from t have names: "map c_name ?cs =
       map production_name (sSources ?d) @ map demand_name (sCustomers ?d) @
       map (\<lambda>(s, c). fixed_name s c) (fixed_pairs ?d)"
    by (rule conjunct1)
  from t have numbers: "map (\<lambda>r. constraint_number (c_name r)) ?cs =
       replicate (length (sSources ?d)) (Inr 1) @ replicate (length (sCustomers ?d)) (Inr 2) @
       replicate (length (fixed_pairs ?d)) (Inr 3)"
    by blast
  from t have vac: "\<forall>i < length (sSources ?d).
        (\<forall>c \<in> set (sCustomers ?d). (sSources ?d ! i, c) \<notin> set (sSources_Customers ?d)) \<longrightarrow>
        c_name (?cs ! i) = production_name (sSources ?d ! i) \<and> c_terms (?cs ! i) = [] \<and>
        (\<exists>b. pSourceProduction ?d (sSources ?d ! i) = Some b \<and>
           c_lb (?cs ! i) = Fin (if 0 \<le> b then 0 else 1) \<and>
           c_ub (?cs ! i) = Fin (if 0 \<le> b then 0 else 1) \<and>
           (\<forall>x. satisfies x (?cs ! i) \<longleftrightarrow> 0 \<le> b))"
    by blast
  from t have ub: "\<forall>i < length (sSources ?d). source_routes ?d (sSources ?d ! i) \<noteq> [] \<longrightarrow>
        c_lb (?cs ! i) = NegInf \<and>
        (\<exists>b. pSourceProduction ?d (sSources ?d ! i) = Some b \<and> c_ub (?cs ! i) = Fin b)"
    by blast
  from t have cvac: "\<forall>j < length (sCustomers ?d).
        (\<forall>s \<in> set (sSources ?d). (s, sCustomers ?d ! j) \<notin> set (sSources_Customers ?d)) \<longrightarrow>
        c_name (?cs ! (length (sSources ?d) + j)) = demand_name (sCustomers ?d ! j) \<and>
        c_terms (?cs ! (length (sSources ?d) + j)) = [] \<and>
        (\<exists>b. pCustomerDemand ?d (sCustomers ?d ! j) = Some b \<and>
           c_lb (?cs ! (length (sSources ?d) + j)) = Fin (if b \<le> 0 then 0 else 1) \<and>
           c_ub (?cs ! (length (sSources ?d) + j)) = Fin (if b \<le> 0 then 0 else 1) \<and>
           (\<forall>x. satisfies x (?cs ! (length (sSources ?d) + j)) \<longleftrightarrow> b \<le> 0))"
    by blast
  from t have lb: "\<forall>j < length (sCustomers ?d). customer_routes ?d (sCustomers ?d ! j) \<noteq> [] \<longrightarrow>
        c_ub (?cs ! (length (sSources ?d) + j)) = PosInf \<and>
        (\<exists>b. pCustomerDemand ?d (sCustomers ?d ! j) = Some b \<and>
           c_lb (?cs ! (length (sSources ?d) + j)) = Fin b)"
    by blast
  from t have fx: "\<forall>i < length (fixed_pairs ?d).
        \<exists>q. dict_of (pFixedTransportation ?d) (fixed_pairs ?d ! i) = Some q \<and> q \<noteq> 0 \<and>
          c_lb (?cs ! (length (sSources ?d) + length (sCustomers ?d) + i)) = Fin q \<and>
          c_ub (?cs ! (length (sSources ?d) + length (sCustomers ?d) + i)) = Fin q"
    by blast
  have 1: "map c_name ?cs =
     [''c01_production_Arn'', ''c01_production_Gou'', ''c01_production_Rot'',
      ''c02_demand_Ams'', ''c02_demand_Ber'', ''c02_demand_Lon'', ''c02_demand_Par'',
      ''c03_fixed_Arn_Ams'']"
    unfolding names by (simp add: src cus fp production_name_def demand_name_def fixed_name_def)
  have 2: "map (\<lambda>r. constraint_number (c_name r)) ?cs =
     [Inr 1, Inr 1, Inr 1, Inr 2, Inr 2, Inr 2, Inr 2, Inr 3]"
    unfolding numbers by (simp add: src cus fp eval_nat_numeral)
  have l2: "2 < length (sSources ?d)" and l3: "3 < length (sCustomers ?d)"
    by (simp_all add: src cus)
  have norot: "\<forall>c \<in> set (sCustomers ?d). (sSources ?d ! 2, c) \<notin> set (sSources_Customers ?d)"
    using rot unfolding source_routes_Nil by (simp add: src)
  have nopar: "\<forall>s \<in> set (sSources ?d). (s, sCustomers ?d ! 3) \<notin> set (sSources_Customers ?d)"
    using par unfolding customer_routes_Nil by (simp add: cus)
  from vac [THEN spec, THEN mp, OF l2, THEN mp, OF norot] prot
  have 3: "c_name (?cs ! 2) = ''c01_production_Rot'' \<and> c_terms (?cs ! 2) = [] \<and>
      c_lb (?cs ! 2) = Fin 0 \<and> c_ub (?cs ! 2) = Fin 0 \<and> satisfies sample_flow (?cs ! 2)"
    by (auto simp add: src production_name_def)
  from cvac [THEN spec, THEN mp, OF l3, THEN mp, OF nopar] dpar
  have 6: "c_name (?cs ! 6) = ''c02_demand_Par'' \<and> c_terms (?cs ! 6) = [] \<and>
      c_lb (?cs ! 6) = Fin 1 \<and> c_ub (?cs ! 6) = Fin 1 \<and> \<not> satisfies sample_flow (?cs ! 6)"
    by (auto simp add: src cus demand_name_def)
  from ub [rule_format, of 0] arn prod
  have 4: "c_lb (?cs ! 0) = NegInf \<and> c_ub (?cs ! 0) = Fin 550"
    by (simp add: src)
  from lb [rule_format, of 0] ams dem
  have 5: "c_lb (?cs ! 3) = Fin 300 \<and> c_ub (?cs ! 3) = PosInf"
    by (simp add: src cus numeral_3_eq_3)
  from fx [rule_format, of 0] fq
  have 7: "c_lb (?cs ! 7) = Fin 1 \<and> c_ub (?cs ! 7) = Fin 1"
    by (simp add: src cus fp eval_nat_numeral)
  from b 1 2 fp rot 3 par 6 4 5 7 prot dpar show ?thesis
    by (simp add: src cus)
qed

section \<open>The sensitivity report\<close>

subsection \<open>Slack and the rows that are narrated\<close>

lemma rows_length:
  "length (list_sensibility_analysis_constraints sv sol) = length (constraints sv)"
  by (simp add: list_sensibility_analysis_constraints_def)









section \<open>The whole function\<close>

subsection \<open>The quantities reported\<close>

lemma quantities_spec:
  assumes "set ks \<subseteq> dom vq" and "distinct (map fst acc)"
  shows "\<exists>flows. dict_quantity_sources_customers vq sol ks acc = Inr flows \<and>
           distinct (map fst flows) \<and>
           (\<forall>k. map_of flows k =
              (if k \<in> set ks \<and> 0 < solution_value sol (the (vq k))
               then Some (solution_value sol (the (vq k))) else map_of acc k))"
  using assms
proof (induction ks arbitrary: acc)
  case Nil
  then show ?case by simp
next
  case (Cons k0 ks)
  from Cons.prems(1) obtain v where v: "vq k0 = Some v" by auto
  from Cons.prems(1) have sub: "set ks \<subseteq> dom vq" by simp
  show ?case
  proof (cases "0 < solution_value sol v")
    case True
    let ?acc = "AList.update k0 (solution_value sol v) acc"
    have "distinct (map fst ?acc)"
      using Cons.prems(2) by (rule distinct_update)
    from Cons.IH [OF sub this] obtain flows where
      f: "dict_quantity_sources_customers vq sol ks ?acc = Inr flows" "distinct (map fst flows)"
        "\<forall>k. map_of flows k =
              (if k \<in> set ks \<and> 0 < solution_value sol (the (vq k))
               then Some (solution_value sol (the (vq k))) else map_of ?acc k)"
      by blast
    have "dict_quantity_sources_customers vq sol (k0 # ks) acc = Inr flows"
      by (simp add: v True f(1))
    moreover have "\<forall>k. map_of flows k =
              (if k \<in> set (k0 # ks) \<and> 0 < solution_value sol (the (vq k))
               then Some (solution_value sol (the (vq k))) else map_of acc k)"
      using f(3) v True by (auto simp add: update_conv')
    ultimately show ?thesis using f(2) by blast
  next
    case False
    from Cons.IH [OF sub Cons.prems(2)] obtain flows where
      f: "dict_quantity_sources_customers vq sol ks acc = Inr flows" "distinct (map fst flows)"
        "\<forall>k. map_of flows k =
              (if k \<in> set ks \<and> 0 < solution_value sol (the (vq k))
               then Some (solution_value sol (the (vq k))) else map_of acc k)"
      by blast
    have "dict_quantity_sources_customers vq sol (k0 # ks) acc = Inr flows"
      by (simp add: v False f(1))
    moreover have "\<forall>k. map_of flows k =
              (if k \<in> set (k0 # ks) \<and> 0 < solution_value sol (the (vq k))
               then Some (solution_value sol (the (vq k))) else map_of acc k)"
      using f(3) v False by auto
    ultimately show ?thesis using f(2) by blast
  qed
qed

lemma quantities_set:
  assumes "set ks \<subseteq> dom vq"
  shows "\<exists>flows. dict_quantity_sources_customers vq sol ks [] = Inr flows \<and>
           distinct (map fst flows) \<and>
           set flows = {(k, solution_value sol v) | k v.
                          k \<in> set ks \<and> vq k = Some v \<and> 0 < solution_value sol v}"
proof -
  from quantities_spec [OF assms, of "[]" sol] obtain flows where
    f: "dict_quantity_sources_customers vq sol ks [] = Inr flows" "distinct (map fst flows)"
      "\<forall>k. map_of flows k =
              (if k \<in> set ks \<and> 0 < solution_value sol (the (vq k))
               then Some (solution_value sol (the (vq k))) else None)"
    by auto
  have "\<And>k x. (k, x) \<in> set flows \<longleftrightarrow>
      (\<exists>v. k \<in> set ks \<and> vq k = Some v \<and> 0 < solution_value sol v \<and> x = solution_value sol v)"
  proof -
    fix k x
    have "(k, x) \<in> set flows \<longleftrightarrow> map_of flows k = Some x"
      using f(2) by simp
    also have "\<dots> \<longleftrightarrow> (k \<in> set ks \<and> 0 < solution_value sol (the (vq k)) \<and>
        x = solution_value sol (the (vq k)))"
      using f(3) [THEN spec, of k] by (auto split: if_splits)
    also have "\<dots> \<longleftrightarrow>
      (\<exists>v. k \<in> set ks \<and> vq k = Some v \<and> 0 < solution_value sol v \<and> x = solution_value sol v)"
      using assms by auto
    finally show "(k, x) \<in> set flows \<longleftrightarrow>
      (\<exists>v. k \<in> set ks \<and> vq k = Some v \<and> 0 < solution_value sol v \<and> x = solution_value sol v)" .
  qed
  then have "set flows = {(k, solution_value sol v) | k v.
                          k \<in> set ks \<and> vq k = Some v \<and> 0 < solution_value sol v}"
    by auto
  with f(1,2) show ?thesis by blast
qed

subsection \<open>The rows of the variables\<close>

lemma variable_rows_upt:
  "list_sensibility_analysis_variables sv sol =
     map (\<lambda>i. (v_name (variables sv ! i), solution_value sol i, reduced_cost sol i))
       [0..<length (variables sv)]"
  by (rule nth_equalityI)
    (simp_all add: list_sensibility_analysis_variables_def nth_enumerate_eq)

lemma conclusions_variables_upt:
  "conclusions_variables (list_sensibility_analysis_variables sv sol) =
     concat (map (\<lambda>i. print_conclusions_variables_sensibility_analysis
                         (v_name (variables sv ! i)) (reduced_cost sol i))
       (filter (\<lambda>i. solution_value sol i = 0) [0..<length (variables sv)]))"
  unfolding conclusions_variables_def variable_rows_upt
  by (simp add: filter_map comp_def)

subsection \<open>The narration of the selected rows\<close>

lemma narration_ok:
  "constraint_number name = Inr n \<Longrightarrow>
     \<exists>out. print_conclusions_constraints_sensibility_analysis name sp srcs = Inr out"
  by (simp add: print_conclusions_constraints_sensibility_analysis_def Let_def)

lemma conclusions_ok:
  "\<forall>r \<in> set rows. \<exists>n. constraint_number (fst r) = Inr n \<Longrightarrow>
     \<exists>couts. list_all2
         (\<lambda>row out. print_conclusions_constraints_sensibility_analysis (fst row) (snd (snd row)) srcs
            = Inr out) rows couts \<and>
       conclusions_constraints rows srcs = Inr (concat couts)"
proof (induction rows)
  case Nil
  then show ?case by simp
next
  case (Cons r rows)
  obtain name sl sp where r: "r = (name, sl, sp)" by (cases r)
  from Cons.prems r obtain n where "constraint_number name = Inr n" by auto
  then obtain o1 where o1: "print_conclusions_constraints_sensibility_analysis name sp srcs = Inr o1"
    using narration_ok by blast
  from Cons obtain couts where o2: "list_all2
         (\<lambda>row out. print_conclusions_constraints_sensibility_analysis (fst row) (snd (snd row)) srcs
            = Inr out) rows couts" "conclusions_constraints rows srcs = Inr (concat couts)"
    by auto
  have "list_all2
         (\<lambda>row out. print_conclusions_constraints_sensibility_analysis (fst row) (snd (snd row)) srcs
            = Inr out) (r # rows) (o1 # couts)"
    using o1 o2(1) by (simp add: r)
  moreover have "conclusions_constraints (r # rows) srcs = Inr (concat (o1 # couts))"
    by (simp add: r o1 o2(2))
  ultimately show ?case by blast
qed

subsection \<open>The report of a built model\<close>

lemma built_rows_numbers:
  assumes "r \<in> set (list_sensibility_analysis_constraints (built_solver d) sol)"
  shows "\<exists>n. constraint_number (fst r) = Inr n"
proof -
  from assms obtain a where a: "a < length (constraints (built_solver d))"
    and ra: "fst r = c_name (constraints (built_solver d) ! a)"
    by (auto simp add: list_sensibility_analysis_constraints_def in_set_enumerate_eq)
  define k where "k = constraints (built_solver d) ! a"
  have k: "k \<in> set (constraints (built_solver d))" and r: "fst r = c_name k"
    using a ra by (simp_all add: k_def)
  from built_row_cases [OF k] show ?thesis
    unfolding r
    by (auto simp add: production_row_name demand_row_name fixed_row_name
        constraint_number_production constraint_number_demand constraint_number_fixed)
qed

lemma built_conclusions_ok:
  "\<exists>couts. list_all2
       (\<lambda>row out. print_conclusions_constraints_sensibility_analysis (fst row) (snd (snd row)) srcs
          = Inr out)
       (binding_rows (list_sensibility_analysis_constraints (built_solver d) sol)) couts \<and>
     conclusions_constraints
       (binding_rows (list_sensibility_analysis_constraints (built_solver d) sol)) srcs
       = Inr (concat couts)"
proof (rule conclusions_ok)
  show "\<forall>r \<in> set (binding_rows (list_sensibility_analysis_constraints (built_solver d) sol)).
          \<exists>n. constraint_number (fst r) = Inr n"
    using built_rows_numbers [of _ d sol] by (simp add: binding_rows_def)
qed

lemma built_tables_not_empty:
  assumes "k \<in> set (route_pairs d)"
  shows "list_sensibility_analysis_constraints (built_solver d) sol \<noteq> []"
    and "list_sensibility_analysis_variables (built_solver d) sol \<noteq> []"
proof -
  from assms have "fst k \<in> set (sSources d)"
    by (auto simp add: set_route_pairs)
  then have "sSources d \<noteq> []"
    by auto
  then have "constraints (built_solver d) \<noteq> []"
    by (simp add: built_solver_constraints)
  then show "list_sensibility_analysis_constraints (built_solver d) sol \<noteq> []"
    using rows_length [of "built_solver d" sol] by auto
  from assms have "route_pairs d \<noteq> []"
    by auto
  then show "list_sensibility_analysis_variables (built_solver d) sol \<noteq> []"
    by (simp add: variable_rows_upt built_solver_variables)
qed

text \<open>
  What the function does on a built model.  When the status is neither \<open>FEASIBLE\<close> nor
  \<open>OPTIMAL\<close> it returns having printed the failure message and nothing else.  When the
  status is \<open>OPTIMAL\<close> or \<open>FEASIBLE\<close> and no route has a positive quantity, it raises
  \<open>TypeError\<close>.  When the status is \<open>OPTIMAL\<close> or \<open>FEASIBLE\<close> and a route has a
  positive quantity, it returns having printed the status line, the objective, the
  positive quantities by route, the rows of the constraints, the narration of each row
  of slack 0, the rows of the variables and the narration of each variable of value 0.
  The two status texts differ.
\<close>

theorem report_of_built_model:
  assumes "build_model d = Inr m" and "sol = Solve (m_solver m)"
  shows
    "(status_code sol \<noteq> FEASIBLE \<and> status_code sol \<noteq> OPTIMAL \<longrightarrow>
        solve_problem_using_ortools_linear_solver Solve d =
          Inr [Print [Str ''The solver could not solve the problem.'']]) \<and>
     ((status_code sol = OPTIMAL \<or> status_code sol = FEASIBLE) \<and>
      \<not> (\<exists>k v. k \<in> set (route_pairs d) \<and> vQuantityExchanged m k = Some v \<and>
               0 < solution_value sol v) \<longrightarrow>
        solve_problem_using_ortools_linear_solver Solve d = Inl TypeError) \<and>
     ((status_code sol = OPTIMAL \<or> status_code sol = FEASIBLE) \<and>
      (\<exists>k v. k \<in> set (route_pairs d) \<and> vQuantityExchanged m k = Some v \<and>
               0 < solution_value sol v) \<longrightarrow>
        (\<exists>flows couts.
           dict_quantity_sources_customers (vQuantityExchanged m) sol (route_pairs d) [] =
             Inr flows \<and>
           distinct (map fst flows) \<and>
           set flows = {(k, solution_value sol v) | k v.
                          k \<in> set (route_pairs d) \<and> vQuantityExchanged m k = Some v \<and>
                          0 < solution_value sol v} \<and>
           list_all2
             (\<lambda>row out. print_conclusions_constraints_sensibility_analysis (fst row) (snd (snd row))
                (sSources d) = Inr out)
             (binding_rows (list_sensibility_analysis_constraints (m_solver m) sol)) couts \<and>
           conclusions_constraints
             (binding_rows (list_sensibility_analysis_constraints (m_solver m) sol)) (sSources d) =
             Inr (concat couts) \<and>
           solve_problem_using_ortools_linear_solver Solve d =
             Inr ([Print [Str [CHR 0x0A]],
                   Print [Str ''Solver status: '',
                          Str (if status_code sol = OPTIMAL then ''Optimal''
                               else ''Feasible, but not optimal''),
                          Str [CHR 0x0A]],
                   Print [Str ''Total transportation cost: '', Num (objective_value sol),
                          Str [CHR 0x0A]],
                   Print [Str ''Quantity exchanged between sources and customers:''],
                   PrintFlows flows,
                   Print [Str [CHR 0x0A]],
                   Print [Str ''Sensibility analysis - constraints:''],
                   PrintConstraints (list_sensibility_analysis_constraints (m_solver m) sol),
                   Print [Str [CHR 0x0A]]]
                  @ concat couts
                  @ [Print [Str [CHR 0x0A]],
                     Print [Str ''Sensibility analysis - variables:''],
                     PrintVariables
                       (map (\<lambda>i. (v_name (variables (m_solver m) ! i), solution_value sol i,
                                  reduced_cost sol i))
                          [0..<length (variables (m_solver m))]),
                     Print [Str [CHR 0x0A]]]
                  @ concat (map (\<lambda>i. print_conclusions_variables_sensibility_analysis
                                        (v_name (variables (m_solver m) ! i)) (reduced_cost sol i))
                      (filter (\<lambda>i. solution_value sol i = 0) [0..<length (variables (m_solver m))]))
                  @ [Print [Str [CHR 0x0A]]]))) \<and>
     ''Optimal'' \<noteq> ''Feasible, but not optimal''"
proof -
  let ?run = "solve_problem_using_ortools_linear_solver Solve d"
  let ?pos = "\<exists>k v. k \<in> set (route_pairs d) \<and> vQuantityExchanged m k = Some v \<and>
               0 < solution_value sol v"
  from assms(1) have m: "m_solver m = built_solver d" "vQuantityExchanged m = snd (model_variables d)"
    using build_model_Inr [of d m] by simp_all
  have sub: "set (route_pairs d) \<subseteq> dom (vQuantityExchanged m)"
    by (simp add: m model_variables_dom)
  from quantities_set [OF sub, of sol] obtain flows where
    flows: "dict_quantity_sources_customers (vQuantityExchanged m) sol (route_pairs d) [] = Inr flows"
    and dist: "distinct (map fst flows)"
    and fset: "set flows = {(k, solution_value sol v) | k v.
                  k \<in> set (route_pairs d) \<and> vQuantityExchanged m k = Some v \<and>
                  0 < solution_value sol v}"
    by blast
  have empty: "flows = [] \<longleftrightarrow> \<not> ?pos"
  proof -
    have "flows = [] \<longleftrightarrow> set flows = {}" by simp
    also have "\<dots> \<longleftrightarrow> \<not> ?pos" unfolding fset by blast
    finally show ?thesis .
  qed
  from built_conclusions_ok [of "sSources d" d sol] obtain couts where
    lall: "list_all2
             (\<lambda>row out. print_conclusions_constraints_sensibility_analysis (fst row) (snd (snd row))
                (sSources d) = Inr out)
             (binding_rows (list_sensibility_analysis_constraints (m_solver m) sol)) couts"
    and cc: "conclusions_constraints
           (binding_rows (list_sensibility_analysis_constraints (m_solver m) sol)) (sSources d)
           = Inr (concat couts)"
    unfolding m by blast
  have run: "?run = (if status_code sol \<noteq> FEASIBLE \<and> status_code sol \<noteq> OPTIMAL
              then Inr [Print [Str ''The solver could not solve the problem.'']]
              else print_results d m sol)"
    by (simp add: solve_problem_using_ortools_linear_solver_def assms Let_def)
  have fail: "status_code sol \<noteq> FEASIBLE \<and> status_code sol \<noteq> OPTIMAL \<longrightarrow>
        ?run = Inr [Print [Str ''The solver could not solve the problem.'']]"
    by (simp add: run)
  have ok: "status_code sol = OPTIMAL \<or> status_code sol = FEASIBLE \<longrightarrow> ?run = print_results d m sol"
    by (auto simp add: run)
  have none: "\<not> ?pos \<longrightarrow> print_results d m sol = Inl TypeError"
    using empty by (simp add: print_results_def flows Let_def)
  have some: "?pos \<longrightarrow> print_results d m sol =
             Inr ([Print [Str [CHR 0x0A]],
                   Print [Str ''Solver status: '',
                          Str (if status_code sol = OPTIMAL then ''Optimal''
                               else ''Feasible, but not optimal''),
                          Str [CHR 0x0A]],
                   Print [Str ''Total transportation cost: '', Num (objective_value sol),
                          Str [CHR 0x0A]],
                   Print [Str ''Quantity exchanged between sources and customers:''],
                   PrintFlows flows,
                   Print [Str [CHR 0x0A]],
                   Print [Str ''Sensibility analysis - constraints:''],
                   PrintConstraints (list_sensibility_analysis_constraints (m_solver m) sol),
                   Print [Str [CHR 0x0A]]]
                  @ concat couts
                  @ [Print [Str [CHR 0x0A]],
                     Print [Str ''Sensibility analysis - variables:''],
                     PrintVariables
                       (map (\<lambda>i. (v_name (variables (m_solver m) ! i), solution_value sol i,
                                  reduced_cost sol i))
                          [0..<length (variables (m_solver m))]),
                     Print [Str [CHR 0x0A]]]
                  @ concat (map (\<lambda>i. print_conclusions_variables_sensibility_analysis
                                        (v_name (variables (m_solver m) ! i)) (reduced_cost sol i))
                      (filter (\<lambda>i. solution_value sol i = 0) [0..<length (variables (m_solver m))]))
                  @ [Print [Str [CHR 0x0A]]])"
  proof
    assume p: ?pos
    then obtain k where k: "k \<in> set (route_pairs d)" by blast
    from p empty have ne: "flows \<noteq> []" by simp
    have r: "list_sensibility_analysis_constraints (m_solver m) sol \<noteq> []"
      and v: "list_sensibility_analysis_variables (m_solver m) sol \<noteq> []"
      unfolding m using built_tables_not_empty [OF k] by simp_all
    show "print_results d m sol =
             Inr ([Print [Str [CHR 0x0A]],
                   Print [Str ''Solver status: '',
                          Str (if status_code sol = OPTIMAL then ''Optimal''
                               else ''Feasible, but not optimal''),
                          Str [CHR 0x0A]],
                   Print [Str ''Total transportation cost: '', Num (objective_value sol),
                          Str [CHR 0x0A]],
                   Print [Str ''Quantity exchanged between sources and customers:''],
                   PrintFlows flows,
                   Print [Str [CHR 0x0A]],
                   Print [Str ''Sensibility analysis - constraints:''],
                   PrintConstraints (list_sensibility_analysis_constraints (m_solver m) sol),
                   Print [Str [CHR 0x0A]]]
                  @ concat couts
                  @ [Print [Str [CHR 0x0A]],
                     Print [Str ''Sensibility analysis - variables:''],
                     PrintVariables
                       (map (\<lambda>i. (v_name (variables (m_solver m) ! i), solution_value sol i,
                                  reduced_cost sol i))
                          [0..<length (variables (m_solver m))]),
                     Print [Str [CHR 0x0A]]]
                  @ concat (map (\<lambda>i. print_conclusions_variables_sensibility_analysis
                                        (v_name (variables (m_solver m) ! i)) (reduced_cost sol i))
                      (filter (\<lambda>i. solution_value sol i = 0) [0..<length (variables (m_solver m))]))
                  @ [Print [Str [CHR 0x0A]]])"
      using ne r v
      by (simp add: print_results_def flows cc Let_def conclusions_variables_upt
          variable_rows_upt [symmetric])
  qed
  have texts: "''Optimal'' \<noteq> ''Feasible, but not optimal''"
    by simp
  from fail ok none some flows dist fset lall cc texts show ?thesis
    by (auto simp del: append_Cons append_Nil)
qed

subsection \<open>The function on the samples\<close>

lemma build_model_unfixed: "build_model unfixed_data = Inr unfixed_model"
  by (simp add: build_eval unfixed_data_def sample_data_def sample_costs_def unfixed_model_def
      numeral_2_eq_2 numeral_3_eq_3)

lemma build_model_zero_demand: "build_model zero_demand_data = Inr zero_demand_model"
  by (simp add: build_eval zero_demand_data_def zero_demand_model_def)

lemma unfixed_route_pairs:
  "route_pairs unfixed_data =
     [(''Arn'', ''Ams''), (''Arn'', ''Ber''), (''Gou'', ''Ams''), (''Gou'', ''Lon'')]"
  by (simp add: unfixed_data_def sample_data_def sample_costs_def route_pairs_def
      sSources_Customers_def)

lemma unfixed_quantities:
  "vQuantityExchanged unfixed_model =
     [(''Arn'', ''Ams'') \<mapsto> 0, (''Arn'', ''Ber'') \<mapsto> 1, (''Gou'', ''Ams'') \<mapsto> 2, (''Gou'', ''Lon'') \<mapsto> 3]"
  by (simp add: unfixed_model_def)

lemma unfixed_flows:
  "dict_quantity_sources_customers (vQuantityExchanged unfixed_model) unfixed_solution
     (route_pairs unfixed_data) [] =
     Inr [((''Arn'', ''Ber''), 200), ((''Gou'', ''Ams''), 300), ((''Gou'', ''Lon''), 300)]"
  unfolding unfixed_quantities unfixed_route_pairs
  by (simp add: unfixed_solution_def)

lemma unfixed_rows:
  "list_sensibility_analysis_constraints (m_solver unfixed_model) unfixed_solution =
     [(''c01_production_Arn'', Fin 350, 0), (''c01_production_Gou'', Fin 50, 0),
      (''c02_demand_Ams'', Fin 0, 2), (''c02_demand_Ber'', Fin 0, 27 / 10),
      (''c02_demand_Lon'', Fin 0, 5 / 2)]"
  by (simp add: list_sensibility_analysis_constraints_def unfixed_model_def unfixed_solution_def
      slack_def)

lemma unfixed_conclusions:
  "conclusions_constraints
     (binding_rows (list_sensibility_analysis_constraints (m_solver unfixed_model)
        unfixed_solution)) (sSources unfixed_data) =
     Inr [Print [Str ''The total transportation cost would be increased in'', Num 2,
                 Str ''euros for each additional ton supply at'', Str ''Ams''],
          Print [Str ''The total transportation cost would be increased in'', Num (27 / 10),
                 Str ''euros for each additional ton supply at'', Str ''Ber''],
          Print [Str ''The total transportation cost would be increased in'', Num (5 / 2),
                 Str ''euros for each additional ton supply at'', Str ''Lon'']]"
proof -
  have r: "py_round2 2 = 2" "py_round2 (27 / 10) = 27 / 10" "py_round2 (5 / 2) = 5 / 2"
    by (simp_all add: py_round2_def round_half_even_def)
  have n: "constraint_number ''c02_demand_Ams'' = Inr 2" "constraint_number ''c02_demand_Ber'' = Inr 2"
    "constraint_number ''c02_demand_Lon'' = Inr 2"
    by (simp_all add: constraint_number_prefix py_int_def digit_value_def)
  have l: "constraint_location ''c02_demand_Ams'' = ''Ams''"
    "constraint_location ''c02_demand_Ber'' = ''Ber''"
    "constraint_location ''c02_demand_Lon'' = ''Lon''"
    by (simp_all add: constraint_location_def py_slice_def norm_index_def)
  show ?thesis
    unfolding unfixed_rows
    unfolding binding_rows_def
    by (simp add: print_conclusions_constraints_sensibility_analysis_def n l r unfixed_data_def
        sample_data_def)
qed

lemma unfixed_variable_rows:
  "list_sensibility_analysis_variables (m_solver unfixed_model) unfixed_solution =
     [(''quantity_in_tons_Arn_Ams'', 0, 1 / 2), (''quantity_in_tons_Arn_Ber'', 200, 0),
      (''quantity_in_tons_Gou_Ams'', 300, 0), (''quantity_in_tons_Gou_Lon'', 300, 0)]"
  by (simp add: list_sensibility_analysis_variables_def unfixed_model_def unfixed_solution_def)

lemma unfixed_conclusions_variables:
  "conclusions_variables
     (list_sensibility_analysis_variables (m_solver unfixed_model) unfixed_solution) =
     [Print [Str ''The total cost would be increased in'', Num (1 / 2),
             Str ''euros for each ton supply from'', Str ''Arn'', Str ''to'', Str ''Ams'']]"
proof -
  have r: "py_round2 (1 / 2) = 1 / 2"
    by (simp add: py_round2_def round_half_even_def)
  have s: "variable_source ''quantity_in_tons_Arn_Ams'' = ''Arn''"
    "variable_customer ''quantity_in_tons_Arn_Ams'' = ''Ams''"
    by (simp_all add: variable_source_def variable_customer_def py_slice_def norm_index_def)
  show ?thesis
    unfolding unfixed_variable_rows
    by (simp add: conclusions_variables_def print_conclusions_variables_sensibility_analysis_def
        r s)
qed

theorem report_of_built_model_witness:
  "build_model unfixed_data = Inr unfixed_model \<and>
   status_code (zero_solution INFEASIBLE) \<noteq> FEASIBLE \<and>
   status_code (zero_solution INFEASIBLE) \<noteq> OPTIMAL \<and>
   solve_problem_using_ortools_linear_solver (\<lambda>sv. zero_solution INFEASIBLE) unfixed_data =
     Inr [Print [Str ''The solver could not solve the problem.'']] \<and>
   build_model zero_demand_data = Inr zero_demand_model \<and>
   status_code (zero_solution OPTIMAL) = OPTIMAL \<and>
   \<not> (\<exists>k v. k \<in> set (route_pairs zero_demand_data) \<and>
            vQuantityExchanged zero_demand_model k = Some v \<and>
            0 < solution_value (zero_solution OPTIMAL) v) \<and>
   solve_problem_using_ortools_linear_solver (\<lambda>sv. zero_solution OPTIMAL) zero_demand_data =
     Inl TypeError \<and>
   status_code unfixed_solution = OPTIMAL \<and>
   (\<exists>k v. k \<in> set (route_pairs unfixed_data) \<and> vQuantityExchanged unfixed_model k = Some v \<and>
          0 < solution_value unfixed_solution v) \<and>
   solve_problem_using_ortools_linear_solver (\<lambda>sv. unfixed_solution) unfixed_data =
     Inr [Print [Str [CHR 0x0A]],
          Print [Str ''Solver status: '', Str ''Optimal'', Str [CHR 0x0A]],
          Print [Str ''Total transportation cost: '', Num 1890, Str [CHR 0x0A]],
          Print [Str ''Quantity exchanged between sources and customers:''],
          PrintFlows [((''Arn'', ''Ber''), 200), ((''Gou'', ''Ams''), 300),
                      ((''Gou'', ''Lon''), 300)],
          Print [Str [CHR 0x0A]],
          Print [Str ''Sensibility analysis - constraints:''],
          PrintConstraints
            [(''c01_production_Arn'', Fin 350, 0), (''c01_production_Gou'', Fin 50, 0),
             (''c02_demand_Ams'', Fin 0, 2), (''c02_demand_Ber'', Fin 0, 27 / 10),
             (''c02_demand_Lon'', Fin 0, 5 / 2)],
          Print [Str [CHR 0x0A]],
          Print [Str ''The total transportation cost would be increased in'', Num 2,
                 Str ''euros for each additional ton supply at'', Str ''Ams''],
          Print [Str ''The total transportation cost would be increased in'', Num (27 / 10),
                 Str ''euros for each additional ton supply at'', Str ''Ber''],
          Print [Str ''The total transportation cost would be increased in'', Num (5 / 2),
                 Str ''euros for each additional ton supply at'', Str ''Lon''],
          Print [Str [CHR 0x0A]],
          Print [Str ''Sensibility analysis - variables:''],
          PrintVariables
            [(''quantity_in_tons_Arn_Ams'', 0, 1 / 2), (''quantity_in_tons_Arn_Ber'', 200, 0),
             (''quantity_in_tons_Gou_Ams'', 300, 0), (''quantity_in_tons_Gou_Lon'', 300, 0)],
          Print [Str [CHR 0x0A]],
          Print [Str ''The total cost would be increased in'', Num (1 / 2),
                 Str ''euros for each ton supply from'', Str ''Arn'', Str ''to'', Str ''Ams''],
          Print [Str [CHR 0x0A]]] \<and>
   status_code (unfixed_solution\<lparr>status_code := FEASIBLE\<rparr>) = FEASIBLE \<and>
   map_sum id (\<lambda>out. out ! 1)
     (solve_problem_using_ortools_linear_solver (\<lambda>sv. unfixed_solution\<lparr>status_code := FEASIBLE\<rparr>)
        unfixed_data) =
     Inr (Print [Str ''Solver status: '', Str ''Feasible, but not optimal'', Str [CHR 0x0A]])"
proof -
  have b: "build_model unfixed_data = Inr unfixed_model"
    by (rule build_model_unfixed)
  have bz: "build_model zero_demand_data = Inr zero_demand_model"
    by (rule build_model_zero_demand)
  have s0: "status_code (zero_solution INFEASIBLE) \<noteq> FEASIBLE \<and>
      status_code (zero_solution INFEASIBLE) \<noteq> OPTIMAL"
    by (simp add: zero_solution_def)
  have sz: "status_code (zero_solution OPTIMAL) = OPTIMAL"
    by (simp add: zero_solution_def)
  have nz: "\<not> (\<exists>k v. k \<in> set (route_pairs zero_demand_data) \<and>
            vQuantityExchanged zero_demand_model k = Some v \<and>
            0 < solution_value (zero_solution OPTIMAL) v)"
    by (simp add: zero_solution_def)
  have s1: "status_code unfixed_solution = OPTIMAL"
    by (simp add: unfixed_solution_def)
  have p1: "\<exists>k v. k \<in> set (route_pairs unfixed_data) \<and> vQuantityExchanged unfixed_model k = Some v \<and>
          0 < solution_value unfixed_solution v"
    unfolding unfixed_route_pairs unfixed_quantities
    by (rule exI [of _ "(''Arn'', ''Ber'')"], rule exI [of _ 1])
      (simp add: unfixed_solution_def)
  have s2: "status_code (unfixed_solution\<lparr>status_code := FEASIBLE\<rparr>) = FEASIBLE"
    by simp
  have p2: "\<exists>k v. k \<in> set (route_pairs unfixed_data) \<and> vQuantityExchanged unfixed_model k = Some v \<and>
          0 < solution_value (unfixed_solution\<lparr>status_code := FEASIBLE\<rparr>) v"
    using p1 by simp
  note t0 = report_of_built_model [OF b refl, of "\<lambda>sv. zero_solution INFEASIBLE"]
  note tz = report_of_built_model [OF bz refl, of "\<lambda>sv. zero_solution OPTIMAL"]
  note t1 = report_of_built_model [OF b refl, of "\<lambda>sv. unfixed_solution"]
  note t2 = report_of_built_model [OF b refl, of "\<lambda>sv. unfixed_solution\<lparr>status_code := FEASIBLE\<rparr>"]
  from t0 [THEN conjunct1, THEN mp, OF s0]
  have r0: "solve_problem_using_ortools_linear_solver (\<lambda>sv. zero_solution INFEASIBLE) unfixed_data =
     Inr [Print [Str ''The solver could not solve the problem.'']]" .
  from tz [THEN conjunct2, THEN conjunct1, THEN mp, OF conjI [OF disjI1 [OF sz] nz]]
  have rz: "solve_problem_using_ortools_linear_solver (\<lambda>sv. zero_solution OPTIMAL) zero_demand_data =
     Inl TypeError" .
  have o: "objective_value unfixed_solution = 1890"
    by (simp add: unfixed_solution_def)
  from t1 [THEN conjunct2, THEN conjunct2, THEN conjunct1, THEN mp, OF conjI [OF disjI1 [OF s1] p1]]
  obtain flows couts where
    f: "dict_quantity_sources_customers (vQuantityExchanged unfixed_model) unfixed_solution
          (route_pairs unfixed_data) [] = Inr flows"
    and c: "conclusions_constraints
          (binding_rows (list_sensibility_analysis_constraints (m_solver unfixed_model)
             unfixed_solution)) (sSources unfixed_data) = Inr (concat couts)"
    and run: "solve_problem_using_ortools_linear_solver (\<lambda>sv. unfixed_solution) unfixed_data =
             Inr ([Print [Str [CHR 0x0A]],
                   Print [Str ''Solver status: '',
                          Str (if status_code unfixed_solution = OPTIMAL then ''Optimal''
                               else ''Feasible, but not optimal''),
                          Str [CHR 0x0A]],
                   Print [Str ''Total transportation cost: '', Num (objective_value unfixed_solution),
                          Str [CHR 0x0A]],
                   Print [Str ''Quantity exchanged between sources and customers:''],
                   PrintFlows flows,
                   Print [Str [CHR 0x0A]],
                   Print [Str ''Sensibility analysis - constraints:''],
                   PrintConstraints (list_sensibility_analysis_constraints (m_solver unfixed_model)
                     unfixed_solution),
                   Print [Str [CHR 0x0A]]]
                  @ concat couts
                  @ [Print [Str [CHR 0x0A]],
                     Print [Str ''Sensibility analysis - variables:''],
                     PrintVariables
                       (map (\<lambda>i. (v_name (variables (m_solver unfixed_model) ! i),
                                  solution_value unfixed_solution i,
                                  reduced_cost unfixed_solution i))
                          [0..<length (variables (m_solver unfixed_model))]),
                     Print [Str [CHR 0x0A]]]
                  @ concat (map (\<lambda>i. print_conclusions_variables_sensibility_analysis
                                        (v_name (variables (m_solver unfixed_model) ! i))
                                        (reduced_cost unfixed_solution i))
                      (filter (\<lambda>i. solution_value unfixed_solution i = 0)
                         [0..<length (variables (m_solver unfixed_model))]))
                  @ [Print [Str [CHR 0x0A]]])"
    by blast
  from f have fl: "flows = [((''Arn'', ''Ber''), 200), ((''Gou'', ''Ams''), 300),
                      ((''Gou'', ''Lon''), 300)]"
    unfolding unfixed_flows by simp
  from c have cl: "concat couts =
         [Print [Str ''The total transportation cost would be increased in'', Num 2,
                 Str ''euros for each additional ton supply at'', Str ''Ams''],
          Print [Str ''The total transportation cost would be increased in'', Num (27 / 10),
                 Str ''euros for each additional ton supply at'', Str ''Ber''],
          Print [Str ''The total transportation cost would be increased in'', Num (5 / 2),
                 Str ''euros for each additional ton supply at'', Str ''Lon'']]"
    unfolding unfixed_conclusions by simp
  have r1: "solve_problem_using_ortools_linear_solver (\<lambda>sv. unfixed_solution) unfixed_data =
     Inr [Print [Str [CHR 0x0A]],
          Print [Str ''Solver status: '', Str ''Optimal'', Str [CHR 0x0A]],
          Print [Str ''Total transportation cost: '', Num 1890, Str [CHR 0x0A]],
          Print [Str ''Quantity exchanged between sources and customers:''],
          PrintFlows [((''Arn'', ''Ber''), 200), ((''Gou'', ''Ams''), 300),
                      ((''Gou'', ''Lon''), 300)],
          Print [Str [CHR 0x0A]],
          Print [Str ''Sensibility analysis - constraints:''],
          PrintConstraints
            [(''c01_production_Arn'', Fin 350, 0), (''c01_production_Gou'', Fin 50, 0),
             (''c02_demand_Ams'', Fin 0, 2), (''c02_demand_Ber'', Fin 0, 27 / 10),
             (''c02_demand_Lon'', Fin 0, 5 / 2)],
          Print [Str [CHR 0x0A]],
          Print [Str ''The total transportation cost would be increased in'', Num 2,
                 Str ''euros for each additional ton supply at'', Str ''Ams''],
          Print [Str ''The total transportation cost would be increased in'', Num (27 / 10),
                 Str ''euros for each additional ton supply at'', Str ''Ber''],
          Print [Str ''The total transportation cost would be increased in'', Num (5 / 2),
                 Str ''euros for each additional ton supply at'', Str ''Lon''],
          Print [Str [CHR 0x0A]],
          Print [Str ''Sensibility analysis - variables:''],
          PrintVariables
            [(''quantity_in_tons_Arn_Ams'', 0, 1 / 2), (''quantity_in_tons_Arn_Ber'', 200, 0),
             (''quantity_in_tons_Gou_Ams'', 300, 0), (''quantity_in_tons_Gou_Lon'', 300, 0)],
          Print [Str [CHR 0x0A]],
          Print [Str ''The total cost would be increased in'', Num (1 / 2),
                 Str ''euros for each ton supply from'', Str ''Arn'', Str ''to'', Str ''Ams''],
          Print [Str [CHR 0x0A]]]"
    using run
    unfolding variable_rows_upt [symmetric] conclusions_variables_upt [symmetric]
    unfolding fl cl s1 o unfixed_conclusions_variables
    unfolding unfixed_rows unfixed_variable_rows
    by simp
  from t2 [THEN conjunct2, THEN conjunct2, THEN conjunct1, THEN mp, OF conjI [OF disjI2 [OF s2] p2]]
  have r2: "map_sum id (\<lambda>out. out ! 1)
     (solve_problem_using_ortools_linear_solver (\<lambda>sv. unfixed_solution\<lparr>status_code := FEASIBLE\<rparr>)
        unfixed_data) =
     Inr (Print [Str ''Solver status: '', Str ''Feasible, but not optimal'', Str [CHR 0x0A]])"
    by (elim exE conjE) (simp only: s2, simp)
  from s0 have s0a: "status_code (zero_solution INFEASIBLE) \<noteq> FEASIBLE"
    and s0b: "status_code (zero_solution INFEASIBLE) \<noteq> OPTIMAL"
    by simp_all
  from b s0a s0b r0 bz sz nz rz s1 p1 r1 s2 r2 show ?thesis
    by (intro conjI)
qed

text \<open>
  C5.  The second half of the claim fails on the program.  One source, one customer that
  demands nothing, one route: the builder completes, moving nothing satisfies every
  constraint at cost 0, and for the status \<open>OPTIMAL\<close> with these quantities the
  function raises \<open>TypeError\<close> where the claim has the full interpretation proceed.
\<close>

theorem report_raises_without_positive_flow:
  "build_model zero_demand_data = Inr zero_demand_model \<and>
   list_all (satisfies (solution_value (zero_solution OPTIMAL)))
     (constraints (m_solver zero_demand_model)) \<and>
   list_all (\<lambda>i. bound_le (v_lb (variables (m_solver zero_demand_model) ! i))
                   (Fin (solution_value (zero_solution OPTIMAL) i)))
     [0..<length (variables (m_solver zero_demand_model))] \<and>
   status_code (zero_solution OPTIMAL) = OPTIMAL \<and>
   solve_problem_using_ortools_linear_solver (\<lambda>sv. zero_solution OPTIMAL) zero_demand_data =
     Inl TypeError"
proof -
  have b: "build_model zero_demand_data = Inr zero_demand_model"
    by (simp add: build_eval zero_demand_data_def zero_demand_model_def)
  have f: "list_all (satisfies (solution_value (zero_solution OPTIMAL)))
     (constraints (m_solver zero_demand_model))"
    by (simp add: zero_demand_model_def zero_solution_def satisfies_def lhs_value_def)
  have v: "list_all (\<lambda>i. bound_le (v_lb (variables (m_solver zero_demand_model) ! i))
                   (Fin (solution_value (zero_solution OPTIMAL) i)))
     [0..<length (variables (m_solver zero_demand_model))]"
    by (simp add: zero_demand_model_def zero_solution_def)
  have s: "status_code (zero_solution OPTIMAL) = OPTIMAL"
    by (simp add: zero_solution_def)
  have r: "solve_problem_using_ortools_linear_solver (\<lambda>sv. zero_solution OPTIMAL) zero_demand_data =
     Inl TypeError"
    unfolding solve_problem_using_ortools_linear_solver_def b
    by (simp add: print_results_def zero_demand_model_def zero_solution_def zero_demand_data_def
        route_pairs_def sSources_Customers_def)
  from b f v s r show ?thesis
    by (intro conjI)
qed

end
